theory Spec2Isabelle
  imports Complex_Main "HOL-Library.Word" "HOL-Library.Multiset" "HOL-Library.Sublist"
begin

section \<open>Strings and numbers of the host language\<close>

text \<open>
  A JavaScript string is a sequence of UTF-16 code units, and \<open>.length\<close> counts code
  units. A finite number is given by its value, a rational: every finite double is
  one, and \<open>Math.floor\<close>, \<open>% 1\<close> and comparison are exact on doubles. The product
  \<open>usdPrice * 83.5\<close> is rounded to the nearest double and may overflow, and the
  difference of two infinities is \<open>NaN\<close>; both are modelled below.
\<close>

type_synonym jschar = "16 word"
type_synonym jsstring = "jschar list"

definition js :: "string \<Rightarrow> jsstring" where
  "js s = map (\<lambda>c. of_nat (of_char c)) s"

text \<open>
  \<open>String.prototype.trim\<close> strips the code units that ECMAScript calls WhiteSpace or
  LineTerminator from both ends.
\<close>

definition is_js_whitespace :: "jschar \<Rightarrow> bool" where
  "is_js_whitespace c \<longleftrightarrow>
     c \<in> set [0x0009, 0x000A, 0x000B, 0x000C, 0x000D, 0x0020, 0x00A0, 0x1680,
               0x2000, 0x2001, 0x2002, 0x2003, 0x2004, 0x2005, 0x2006, 0x2007,
               0x2008, 0x2009, 0x200A, 0x2028, 0x2029, 0x202F, 0x205F, 0x3000, 0xFEFF]"

definition trimStart :: "jsstring \<Rightarrow> jsstring" where
  "trimStart s = dropWhile is_js_whitespace s"

definition trimEnd :: "jsstring \<Rightarrow> jsstring" where
  "trimEnd s = rev (dropWhile is_js_whitespace (rev s))"

definition trim :: "jsstring \<Rightarrow> jsstring" where
  "trim s = trimStart (trimEnd s)"

text \<open>
  The decimal digits of a natural number: the conversion to a string of a response
  status, an integer from 0 to 999.
\<close>

definition digit_char :: "nat \<Rightarrow> jschar" where
  "digit_char d = of_nat (48 + d)"

fun nat_to_string :: "nat \<Rightarrow> jsstring" where
  "nat_to_string n =
     (if n < 10 then [digit_char n] else nat_to_string (n div 10) @ [digit_char (n mod 10)])"

declare nat_to_string.simps [simp del]

subsection \<open>Doubles\<close>

text \<open>
  A number that is not \<open>NaN\<close>: an infinity, or a finite double with its value. The
  order is that of \<open><\<close> on numbers.
\<close>

datatype double = NegInfinity | Finite rat | Infinity

datatype number = Number double | NaN

fun double_le :: "double \<Rightarrow> double \<Rightarrow> bool" where
  "double_le NegInfinity y = True"
| "double_le (Finite a) NegInfinity = False"
| "double_le (Finite a) (Finite b) = (a \<le> b)"
| "double_le (Finite a) Infinity = True"
| "double_le Infinity Infinity = True"
| "double_le Infinity y = False"

instantiation double :: "{linorder, uminus}"
begin

definition less_eq_double :: "double \<Rightarrow> double \<Rightarrow> bool" where
  "less_eq_double x y \<longleftrightarrow> double_le x y"

definition less_double :: "double \<Rightarrow> double \<Rightarrow> bool" where
  "less_double x y \<longleftrightarrow> double_le x y \<and> \<not> double_le y x"

fun uminus_double :: "double \<Rightarrow> double" where
  "uminus_double NegInfinity = Infinity"
| "uminus_double (Finite a) = Finite (- a)"
| "uminus_double Infinity = NegInfinity"

instance
proof
  fix x y z :: double
  show "(x < y) = (x \<le> y \<and> \<not> y \<le> x)"
    by (simp add: less_double_def less_eq_double_def)
  show "x \<le> x"
    by (cases x) (simp_all add: less_eq_double_def)
  show "x \<le> y \<Longrightarrow> y \<le> z \<Longrightarrow> x \<le> z"
    by (cases x; cases y; cases z) (simp_all add: less_eq_double_def)
  show "x \<le> y \<Longrightarrow> y \<le> x \<Longrightarrow> x = y"
    by (cases x; cases y) (simp_all add: less_eq_double_def)
  show "x \<le> y \<or> y \<le> x"
    by (cases x; cases y) (auto simp: less_eq_double_def)
qed

end

text \<open>
  Rounding of a rational to the nearest double, ties to the even significand
  (IEEE 754 binary64, the arithmetic of JavaScript numbers): 53 significant bits, the
  least exponent -1022, and an infinity from \<open>2^1024 - 2^970\<close> on.
\<close>

fun bit_length :: "nat \<Rightarrow> nat" where
  "bit_length n = (if n = 0 then 0 else Suc (bit_length (n div 2)))"

declare bit_length.simps [simp del]

definition pow2 :: "int \<Rightarrow> rat" where
  "pow2 e = (if 0 \<le> e then 2 ^ nat e else 1 / 2 ^ nat (- e))"

text \<open>For \<open>a > 0\<close>, the exponent \<open>e\<close> with \<open>2^e \<le> a < 2^(e+1)\<close>.\<close>

definition ilog2 :: "rat \<Rightarrow> int" where
  "ilog2 a =
     (if 1 \<le> a then int (bit_length (nat \<lfloor>a\<rfloor>)) - 1
      else - int (bit_length (nat (\<lceil>1 / a\<rceil> - 1))))"

definition round_half_even :: "rat \<Rightarrow> int" where
  "round_half_even x =
     (let f = \<lfloor>x\<rfloor>; d = x - of_int f
      in if d < 1 / 2 then f else if 1 / 2 < d then f + 1 else if even f then f else f + 1)"

definition round_double :: "rat \<Rightarrow> double" where
  "round_double x =
     (if x = 0 then Finite 0
      else
        (let a = \<bar>x\<bar>;
             e = max (ilog2 a) (- 1022);
             ulp = pow2 (e - 52);
             y = of_int (round_half_even (a / ulp)) * ulp
         in if pow2 1024 \<le> y then (if 0 < x then Infinity else NegInfinity)
            else Finite (if 0 < x then y else - y)))"

text \<open>
  \<open>a - b\<close> on numbers that are not \<open>NaN\<close>. The difference of two finite doubles
  is rounded, or overflows, in the source; its sign is that of the exact difference, and
  a sort reads nothing but the sign, so the model keeps the exact difference.
\<close>

fun subtract :: "double \<Rightarrow> double \<Rightarrow> number" where
  "subtract (Finite a) (Finite b) = Number (Finite (a - b))"
| "subtract Infinity Infinity = NaN"
| "subtract NegInfinity NegInfinity = NaN"
| "subtract Infinity y = Number Infinity"
| "subtract NegInfinity y = Number NegInfinity"
| "subtract (Finite a) Infinity = Number NegInfinity"
| "subtract (Finite a) NegInfinity = Number Infinity"

definition is_positive :: "number \<Rightarrow> bool" where
  "is_positive v = (case v of NaN \<Rightarrow> False | Number d \<Rightarrow> Finite 0 < d)"

text \<open>
  The error objects the program can meet. \<open>Error\<close> is the one the repository throws
  itself, with its message; \<open>RangeError\<close> comes from \<open>String.prototype.repeat\<close>,
  \<open>URIError\<close> from \<open>encodeURIComponent\<close>, \<open>TypeError\<close> from a rejected
  \<open>fetch\<close> and \<open>SyntaxError\<close> from \<open>response.json()\<close>; the last two carry the
  message the browser gave them.
\<close>

datatype js_error =
    Error jsstring
  | RangeError
  | URIError
  | TypeError jsstring
  | SyntaxError jsstring

text \<open>
  What the browser supplies and the repository only calls: the number formatters
  (\<open>toFixed(1)\<close>, \<open>Intl.NumberFormat\<close>, the conversion of a number to a string in a
  template) and the messages of the built-in errors.
\<close>

record host =
  toFixed1 :: "rat \<Rightarrow> jsstring"
  formatINR :: "double \<Rightarrow> jsstring"
  numberToString :: "int \<Rightarrow> jsstring"
  rangeError_message :: jsstring
  uriError_message :: jsstring

fun message :: "host \<Rightarrow> js_error \<Rightarrow> jsstring" where
  "message h (Error m) = m"
| "message h RangeError = rangeError_message h"
| "message h URIError = uriError_message h"
| "message h (TypeError m) = m"
| "message h (SyntaxError m) = m"

section \<open>Products and their cards\<close>

text \<open>
  The fields of a catalog product that the search page reads. A field the server may
  leave out is an option; \<open>x || d\<close> takes \<open>d\<close> when \<open>x\<close> is missing, the empty
  string or zero.
\<close>

record product =
  product_id :: int
  title :: jsstring
  description :: "jsstring option"
  price :: rat
  rating :: "rat option"
  thumbnail :: "jsstring option"
  images :: "jsstring list option"

text \<open>
  The element \<open>createProductCard\<close> returns: its class, its cursor style, the markup
  assigned to \<open>innerHTML\<close>, and the product its click handler opens.
\<close>

record card =
  className :: jsstring
  style_cursor :: jsstring
  innerHTML :: jsstring
  click_opens :: product

text \<open>
  \<open>escapeHtml\<close> writes the text into a fresh element's \<open>textContent\<close> and reads
  \<open>innerHTML\<close> back: the text node is serialised with \<open>&\<close>, no-break space,
  \<open><\<close> and \<open>>\<close> replaced; quotes are left as they are.
\<close>

definition escape_char :: "jschar \<Rightarrow> jsstring" where
  "escape_char c =
     (if c = 0x26 then js ''&amp;''
      else if c = 0xA0 then js ''&nbsp;''
      else if c = 0x3C then js ''&lt;''
      else if c = 0x3E then js ''&gt;''
      else [c])"

definition escapeHtml :: "jsstring \<Rightarrow> jsstring" where
  "escapeHtml text = concat (map escape_char text)"

text \<open>\<open>String.prototype.repeat\<close> throws a RangeError on a negative count.\<close>

definition repeat :: "jsstring \<Rightarrow> int \<Rightarrow> js_error + jsstring" where
  "repeat s n = (if n < 0 then Inl RangeError else Inr (concat (replicate (nat n) s)))"

text \<open>\<open>x % 1\<close>: the remainder has the sign of \<open>x\<close>.\<close>

definition rem1 :: "rat \<Rightarrow> rat" where
  "rem1 x = (if 0 \<le> x then frac x else - frac (- x))"

text \<open>
  The three glyphs of \<open>generateStars\<close> as the source writes them: the black star
  U+2605 for a full star, and the white star U+2606 both for the half star and for an
  empty one.
\<close>

definition full_star :: jschar where "full_star = 0x2605"
definition half_star :: jschar where "half_star = 0x2606"
definition empty_star :: jschar where "empty_star = 0x2606"

definition generateStars :: "rat \<Rightarrow> js_error + jsstring" where
  "generateStars r =
     (let fullStars = \<lfloor>r\<rfloor>;
          hasHalfStar = (rem1 r \<ge> 1 / 2);
          emptyStars = 5 - fullStars - (if hasHalfStar then 1 else 0)
      in case repeat [full_star] fullStars of
           Inl e \<Rightarrow> Inl e
         | Inr filled \<Rightarrow>
             (case repeat [empty_star] emptyStars of
                Inl e \<Rightarrow> Inl e
              | Inr blank \<Rightarrow> Inr (filled @ (if hasHalfStar then [half_star] else []) @ blank)))"

definition usdToInrRate :: rat where
  "usdToInrRate = 167 / 2"

definition convertToRupees :: "rat \<Rightarrow> double" where
  "convertToRupees usdPrice = round_double (usdPrice * usdToInrRate)"

definition formatRupeePrice :: "host \<Rightarrow> rat \<Rightarrow> jsstring" where
  "formatRupeePrice h usdPrice = formatINR h (convertToRupees usdPrice)"

definition rating_or_0 :: "product \<Rightarrow> rat" where
  "rating_or_0 p = (case rating p of None \<Rightarrow> 0 | Some r \<Rightarrow> r)"

definition placeholder_280 :: jsstring where
  "placeholder_280 = js ''https://via.placeholder.com/280x200?text=No+Image''"

definition card_image_src :: "product \<Rightarrow> jsstring" where
  "card_image_src p =
     (case thumbnail p of
        Some (c # cs) \<Rightarrow> c # cs
      | _ \<Rightarrow>
          (case images p of
             Some ((c # cs) # _) \<Rightarrow> c # cs
           | _ \<Rightarrow> placeholder_280))"

definition description_or_default :: "product \<Rightarrow> jsstring" where
  "description_or_default p =
     (case description p of
        Some (c # cs) \<Rightarrow> c # cs
      | _ \<Rightarrow> js ''No description available'')"

definition card_markup :: "host \<Rightarrow> product \<Rightarrow> rat \<Rightarrow> jsstring \<Rightarrow> jsstring" where
  \<open>card_markup h p r stars =
     js ''\<newline>            <img\<newline>                src="''
     @ card_image_src p
     @ js ''"\<newline>                alt="''
     @ title p
     @ js ''"\<newline>                class="product-image"\<newline>                onerror="this.src='https://via.placeholder.com/280x200?text=No+Image'"\<newline>            >\<newline>            <div class="product-info">\<newline>                <h3 class="product-title">''
     @ escapeHtml (title p)
     @ js ''</h3>\<newline>                <div class="product-rating">\<newline>                    <span class="stars">''
     @ stars
     @ js ''</span>\<newline>                    <span class="rating-text">(''
     @ toFixed1 h r
     @ js '')</span>\<newline>                </div>\<newline>                <p class="product-description">''
     @ escapeHtml (description_or_default p)
     @ js ''</p>\<newline>                <div class="product-price">''
     @ formatRupeePrice h (price p)
     @ js ''</div>\<newline>            </div>\<newline>        ''\<close>

definition createProductCard :: "host \<Rightarrow> product \<Rightarrow> js_error + card" where
  "createProductCard h p =
     (let r = rating_or_0 p
      in case generateStars r of
           Inl e \<Rightarrow> Inl e
         | Inr stars \<Rightarrow>
             Inr \<lparr>className = js ''product-card'', style_cursor = js ''pointer'',
                  innerHTML = card_markup h p r stars, click_opens = p\<rparr>)"

section \<open>The state of the page\<close>

text \<open>
  Arrays are objects: a variable holds a reference, and \<open>Array.prototype.sort\<close>
  reorders the array it is called on. The store maps a reference to the contents of its
  array; \<open>store_limit\<close> is the next unused reference.

  The other fields are the properties of the DOM elements and of the
  \<open>ProductSearch\<close> object that the search and sort handlers read or write. A
  \<open>_hidden\<close>, \<open>_show\<close> or \<open>_error\<close> field says whether the element's class
  list holds that class.
\<close>

type_synonym ref = nat

record ui =
  searchInput_value :: jsstring
  searchInput_error :: bool
  searchInput_focused :: bool
  errorMessage_textContent :: jsstring
  errorMessage_show :: bool
  loadingSpinner_hidden :: bool
  resultsHeader_hidden :: bool
  resultsTitle_textContent :: jsstring
  resultsCount_textContent :: jsstring
  productGrid :: "card list"
  noResults_hidden :: bool
  errorContainer_hidden :: bool
  errorText_textContent :: jsstring
  sortSelect_value :: jsstring
  currentSearchTerm :: jsstring
  currentProducts :: ref
  store :: "ref \<Rightarrow> product list"
  store_limit :: ref

text \<open>A new array (an array literal, a spread copy, a parsed JSON array).\<close>

definition new_array :: "ui \<Rightarrow> product list \<Rightarrow> ui \<times> ref" where
  "new_array s ps =
     (s\<lparr>store := (store s)(store_limit s := ps), store_limit := Suc (store_limit s)\<rparr>,
      store_limit s)"

subsection \<open>Validation\<close>

definition showError :: "ui \<Rightarrow> jsstring \<Rightarrow> ui" where
  "showError s msg =
     s\<lparr>errorMessage_textContent := msg, errorMessage_show := True,
       searchInput_error := True, searchInput_focused := True\<rparr>"

definition clearError :: "ui \<Rightarrow> ui" where
  "clearError s = s\<lparr>errorMessage_show := False, searchInput_error := False\<rparr>"

definition validateSearchInput :: "ui \<Rightarrow> jsstring \<Rightarrow> ui \<times> bool" where
  "validateSearchInput s searchTerm =
     (let trimmedTerm = trim searchTerm
      in if trimmedTerm = [] then
           (showError s (js ''Please enter a product name to search''), False)
         else if length trimmedTerm < 2 then
           (showError s (js ''Search term must be at least 2 characters long''), False)
         else (s, True))"

subsection \<open>Sections of the page\<close>

definition hideAllSections :: "ui \<Rightarrow> ui" where
  "hideAllSections s =
     s\<lparr>loadingSpinner_hidden := True, resultsHeader_hidden := True, productGrid := [],
       noResults_hidden := True, errorContainer_hidden := True,
       sortSelect_value := js ''relevance''\<rparr>"

definition showLoading :: "ui \<Rightarrow> ui" where
  "showLoading s = (hideAllSections s)\<lparr>loadingSpinner_hidden := False\<rparr>"

definition hideLoading :: "ui \<Rightarrow> ui" where
  "hideLoading s = s\<lparr>loadingSpinner_hidden := True\<rparr>"

definition showNoResults :: "ui \<Rightarrow> ui" where
  "showNoResults s = (hideLoading s)\<lparr>noResults_hidden := False\<rparr>"

definition showErrorState :: "ui \<Rightarrow> jsstring \<Rightarrow> ui" where
  "showErrorState s errorMessage =
     (hideLoading s)\<lparr>errorText_textContent := errorMessage, errorContainer_hidden := False\<rparr>"

subsection \<open>Rendering\<close>

text \<open>
  The \<open>forEach\<close> of \<open>renderProducts\<close>: cards are appended one by one, and an
  exception thrown while a card is built ends the loop with the cards appended so far.
\<close>

fun appendCards :: "host \<Rightarrow> product list \<Rightarrow> card list \<Rightarrow> card list \<times> js_error option" where
  "appendCards h [] grid = (grid, None)"
| "appendCards h (p # ps) grid =
     (case createProductCard h p of
        Inl e \<Rightarrow> (grid, Some e)
      | Inr productCard \<Rightarrow> appendCards h ps (grid @ [productCard]))"

definition renderProducts :: "host \<Rightarrow> ui \<Rightarrow> product list \<Rightarrow> ui \<times> js_error option" where
  "renderProducts h s ps =
     (case appendCards h ps [] of (grid, e) \<Rightarrow> (s\<lparr>productGrid := grid\<rparr>, e))"

definition showResults :: "host \<Rightarrow> ui \<Rightarrow> product list \<Rightarrow> jsstring \<Rightarrow> int \<Rightarrow> ui \<times> js_error option" where
  \<open>showResults h s ps searchTerm n =
     renderProducts h
       (s\<lparr>resultsHeader_hidden := False,
          resultsTitle_textContent := js ''Search Results for "'' @ searchTerm @ js ''"'',
          resultsCount_textContent :=
            js ''Found '' @ numberToString h n @ js '' product'' @ (if n \<noteq> 1 then js ''s'' else [])\<rparr>)
       ps\<close>

text \<open>The parsed body of a response: \<open>products\<close> may be missing.\<close>

record search_data =
  products :: "product list option"
  total :: int

definition displayResults :: "host \<Rightarrow> ui \<Rightarrow> search_data \<Rightarrow> jsstring \<Rightarrow> ui \<times> js_error option" where
  "displayResults h s data searchTerm =
     (let s1 = hideLoading s
      in case products data of
           None \<Rightarrow> (showNoResults s1, None)
         | Some [] \<Rightarrow> (showNoResults s1, None)
         | Some (p # ps) \<Rightarrow>
             (case new_array s1 (p # ps) of
                (s2, a) \<Rightarrow>
                  (let s3 = s2\<lparr>currentProducts := a\<rparr>
                   in showResults h s3 (store s3 (currentProducts s3)) searchTerm (total data))))"

subsection \<open>Sorting\<close>

text \<open>
  \<open>Array.prototype.sort\<close> with a comparison function: a stable sort, an element
  \<open>x\<close> moving behind \<open>y\<close> only when \<open>cmp x y\<close> is positive; a comparison that
  gives \<open>NaN\<close> counts as zero.
\<close>

fun insert_by :: "('a \<Rightarrow> 'a \<Rightarrow> number) \<Rightarrow> 'a \<Rightarrow> 'a list \<Rightarrow> 'a list" where
  "insert_by cmp x [] = [x]"
| "insert_by cmp x (y # ys) =
     (if is_positive (cmp x y) then y # insert_by cmp x ys else x # y # ys)"

definition array_sort :: "('a \<Rightarrow> 'a \<Rightarrow> number) \<Rightarrow> 'a list \<Rightarrow> 'a list" where
  "array_sort cmp xs = foldr (insert_by cmp) xs []"

text \<open>
  \<open>sortProducts\<close> takes a reference. The three sorting cases call \<open>sort\<close> on the
  array it refers to and return that same reference.
\<close>

definition sortProducts :: "ui \<Rightarrow> ref \<Rightarrow> jsstring \<Rightarrow> ui \<times> ref" where
  "sortProducts s a sortType =
     (if sortType = js ''price-low'' then
        (s\<lparr>store := (store s)
             (a := array_sort (\<lambda>x y. subtract (convertToRupees (price x)) (convertToRupees (price y)))
                     (store s a))\<rparr>, a)
      else if sortType = js ''price-high'' then
        (s\<lparr>store := (store s)
             (a := array_sort (\<lambda>x y. subtract (convertToRupees (price y)) (convertToRupees (price x)))
                     (store s a))\<rparr>, a)
      else if sortType = js ''rating'' then
        (s\<lparr>store := (store s)
             (a := array_sort (\<lambda>x y. subtract (Finite (rating_or_0 y)) (Finite (rating_or_0 x)))
                     (store s a))\<rparr>, a)
      else (s, a))"

definition handleSortChange :: "host \<Rightarrow> ui \<Rightarrow> ui \<times> js_error option" where
  "handleSortChange h s =
     (if length (store s (currentProducts s)) = 0 then (s, None)
      else
        (let sortValue = sortSelect_value s
         in case new_array s (store s (currentProducts s)) of
              (s1, copy) \<Rightarrow>
                (case sortProducts s1 copy sortValue of
                   (s2, sortedProducts) \<Rightarrow> renderProducts h s2 (store s2 sortedProducts))))"

text \<open>
  What a call of \<open>sortProducts\<close> on a new array holding \<open>ps\<close> returns: the
  contents of the returned array.
\<close>

definition sortProducts_on :: "ui \<Rightarrow> product list \<Rightarrow> jsstring \<Rightarrow> product list" where
  "sortProducts_on s ps sortType =
     (case new_array s ps of
        (s1, a) \<Rightarrow> (case sortProducts s1 a sortType of (s2, sortedProducts) \<Rightarrow> store s2 sortedProducts))"

section \<open>The request\<close>

text \<open>
  \<open>encodeURIComponent\<close>: letters, digits and \<open>- _ . ! ~ * ' ( )\<close> stay; any other
  code point is written as the percent-escaped octets of its UTF-8 encoding; a surrogate
  code unit without its partner throws a URIError.
\<close>

definition uri_unescaped :: "jschar \<Rightarrow> bool" where
  \<open>uri_unescaped c \<longleftrightarrow>
     (0x41 \<le> c \<and> c \<le> 0x5A) \<or> (0x61 \<le> c \<and> c \<le> 0x7A) \<or> (0x30 \<le> c \<and> c \<le> 0x39)
     \<or> c \<in> set (js ''-_.!~*'()'')\<close>

definition is_high_surrogate :: "jschar \<Rightarrow> bool" where
  "is_high_surrogate c \<longleftrightarrow> 0xD800 \<le> c \<and> c \<le> 0xDBFF"

definition is_low_surrogate :: "jschar \<Rightarrow> bool" where
  "is_low_surrogate c \<longleftrightarrow> 0xDC00 \<le> c \<and> c \<le> 0xDFFF"

definition surrogate_pair :: "jschar \<Rightarrow> jschar \<Rightarrow> nat" where
  "surrogate_pair hi lo = 0x10000 + (unat hi - 0xD800) * 0x400 + (unat lo - 0xDC00)"

definition utf8_octets :: "nat \<Rightarrow> nat list" where
  "utf8_octets cp =
     (if cp < 0x80 then [cp]
      else if cp < 0x800 then [0xC0 + cp div 0x40, 0x80 + cp mod 0x40]
      else if cp < 0x10000 then
        [0xE0 + cp div 0x1000, 0x80 + (cp div 0x40) mod 0x40, 0x80 + cp mod 0x40]
      else
        [0xF0 + cp div 0x40000, 0x80 + (cp div 0x1000) mod 0x40,
         0x80 + (cp div 0x40) mod 0x40, 0x80 + cp mod 0x40])"

definition hex_digit :: "nat \<Rightarrow> jschar" where
  "hex_digit d = (if d < 10 then of_nat (48 + d) else of_nat (55 + d))"

definition percent_octet :: "nat \<Rightarrow> jsstring" where
  "percent_octet b = [0x25, hex_digit (b div 16), hex_digit (b mod 16)]"

definition percent_encode :: "nat \<Rightarrow> jsstring" where
  "percent_encode cp = concat (map percent_octet (utf8_octets cp))"

fun encodeURIComponent :: "jsstring \<Rightarrow> js_error + jsstring" where
  "encodeURIComponent [] = Inr []"
| "encodeURIComponent (c # cs) =
     (if uri_unescaped c then
        (case encodeURIComponent cs of Inl e \<Rightarrow> Inl e | Inr r \<Rightarrow> Inr (c # r))
      else if is_low_surrogate c then Inl URIError
      else if is_high_surrogate c then
        (case cs of
           [] \<Rightarrow> Inl URIError
         | d # ds \<Rightarrow>
             if is_low_surrogate d then
               (case encodeURIComponent ds of
                  Inl e \<Rightarrow> Inl e
                | Inr r \<Rightarrow> Inr (percent_encode (surrogate_pair c d) @ r))
             else Inl URIError)
      else
        (case encodeURIComponent cs of
           Inl e \<Rightarrow> Inl e
         | Inr r \<Rightarrow> Inr (percent_encode (unat c) @ r)))"

text \<open>
  \<open>String.prototype.isWellFormed\<close>: no surrogate code unit stands without its partner,
  a high surrogate being directly followed by a low one. The source does not call it; it
  names the queries that \<open>encodeURIComponent\<close> accepts.
\<close>

fun isWellFormed :: "jsstring \<Rightarrow> bool" where
  "isWellFormed [] = True"
| "isWellFormed (c # cs) =
     (if is_low_surrogate c then False
      else if is_high_surrogate c then
        (case cs of [] \<Rightarrow> False | d # ds \<Rightarrow> is_low_surrogate d \<and> isWellFormed ds)
      else isWellFormed cs)"

definition apiBaseUrl :: jsstring where
  "apiBaseUrl = js ''https://dummyjson.com/products/search''"

text \<open>
  A response as \<open>searchProducts\<close> reads it: \<open>response.ok\<close> is true exactly for a
  status from 200 to 299, and \<open>json\<close> is what \<open>response.json()\<close> resolves to, a
  SyntaxError for a malformed body. \<open>fetch\<close> itself rejects when the request cannot
  be completed. The network is a function from the requested URL to what \<open>fetch\<close>
  settles to.
\<close>

record response =
  status :: nat
  statusText :: jsstring
  json :: "js_error + search_data"

datatype fetch_result = Rejected js_error | Resolved response

definition ok :: "response \<Rightarrow> bool" where
  "ok r \<longleftrightarrow> 200 \<le> status r \<and> status r \<le> 299"

text \<open>The URL that \<open>searchProducts\<close> builds (the larger source file).\<close>

definition searchProducts_url :: "jsstring \<Rightarrow> js_error + jsstring" where
  "searchProducts_url searchTerm =
     (case encodeURIComponent searchTerm of
        Inl e \<Rightarrow> Inl e
      | Inr q \<Rightarrow> Inr (apiBaseUrl @ js ''?q='' @ q @ js ''&limit=50''))"

text \<open>The URL that the \<open>searchProducts\<close> of \<open>script.js\<close> builds.\<close>

definition script_searchProducts_url :: "jsstring \<Rightarrow> js_error + jsstring" where
  "script_searchProducts_url searchTerm =
     (case encodeURIComponent searchTerm of
        Inl e \<Rightarrow> Inl e
      | Inr q \<Rightarrow> Inr (apiBaseUrl @ js ''?q='' @ q))"

definition searchProducts :: "(jsstring \<Rightarrow> fetch_result) \<Rightarrow> jsstring \<Rightarrow> js_error + search_data" where
  "searchProducts fetch searchTerm =
     (case searchProducts_url searchTerm of
        Inl e \<Rightarrow> Inl e
      | Inr url \<Rightarrow>
          (case fetch url of
             Rejected e \<Rightarrow> Inl e
           | Resolved r \<Rightarrow>
               if \<not> ok r then
                 Inl (Error (js ''Failed to fetch products: '' @ nat_to_string (status r)
                             @ js '' '' @ statusText r))
               else json r))"

section \<open>The search handler\<close>

text \<open>
  \<open>handleSearch\<close>, with the single request it awaits answered by \<open>fetch\<close>. An
  exception of \<open>searchProducts\<close> or of \<open>displayResults\<close> is caught and its message
  shown by \<open>showErrorState\<close>.
\<close>

definition handleSearch :: "host \<Rightarrow> (jsstring \<Rightarrow> fetch_result) \<Rightarrow> ui \<Rightarrow> ui" where
  "handleSearch h fetch s =
     (let searchTerm = trim (searchInput_value s)
      in case validateSearchInput s searchTerm of
           (s1, False) \<Rightarrow> s1
         | (s1, True) \<Rightarrow>
             (let s2 = showLoading (clearError (s1\<lparr>currentSearchTerm := searchTerm\<rparr>))
              in case searchProducts fetch searchTerm of
                   Inl e \<Rightarrow> showErrorState s2 (message h e)
                 | Inr data \<Rightarrow>
                     (case displayResults h s2 data searchTerm of
                        (s3, None) \<Rightarrow> s3
                      | (s3, Some e) \<Rightarrow> showErrorState s3 (message h e))))"

section \<open>Example data\<close>

text \<open>
  The two products of the specification's canned response, a host whose formatters
  print nothing, and the page as the constructor leaves it (an empty
  \<open>currentProducts\<close> array, every section hidden).
\<close>

definition product_A :: product where
  "product_A =
     \<lparr>product_id = 1, title = js ''A'', description = None, price = 10,
      rating = Some (21 / 5), thumbnail = None, images = None\<rparr>"

definition product_B :: product where
  "product_B =
     \<lparr>product_id = 2, title = js ''B'', description = None, price = 5,
      rating = Some (24 / 5), thumbnail = None, images = None\<rparr>"

text \<open>
  Two products whose prices are neighbouring doubles, \<open>1.7500000000000002\<close> and
  \<open>1.7500000000000004\<close>, and two whose prices are \<open>2^1022\<close> and \<open>2^1023\<close>.
\<close>

definition product_lo :: product where
  "product_lo = product_A\<lparr>product_id := 3, price := 7 / 4 + 1 / 2 ^ 52\<rparr>"

definition product_hi :: product where
  "product_hi = product_A\<lparr>product_id := 4, price := 7 / 4 + 1 / 2 ^ 51\<rparr>"

definition product_big :: product where
  "product_big = product_A\<lparr>product_id := 5, price := 2 ^ 1022\<rparr>"

definition product_bigger :: product where
  "product_bigger = product_A\<lparr>product_id := 6, price := 2 ^ 1023\<rparr>"

definition example_host :: host where
  "example_host =
     \<lparr>toFixed1 = (\<lambda>_. []), formatINR = (\<lambda>_. []), numberToString = (\<lambda>_. []),
      rangeError_message = js ''Invalid count value'', uriError_message = js ''URI malformed''\<rparr>"

definition example_ui :: ui where
  "example_ui =
     \<lparr>searchInput_value = [], searchInput_error = False, searchInput_focused = False,
      errorMessage_textContent = [], errorMessage_show = False,
      loadingSpinner_hidden = True, resultsHeader_hidden = True,
      resultsTitle_textContent = [], resultsCount_textContent = [],
      productGrid = [], noResults_hidden = True, errorContainer_hidden = True,
      errorText_textContent = [], sortSelect_value = js ''relevance'',
      currentSearchTerm = [], currentProducts = 0, store = (\<lambda>_. []), store_limit = 1\<rparr>"

text \<open>The page of the example holding the canned response in \<open>currentProducts\<close>.\<close>

definition canned_ui :: ui where
  "canned_ui = example_ui\<lparr>store := (store example_ui)(0 := [product_A, product_B])\<rparr>"

text \<open>
  Three answers of the network: the canned response, a response with no products, and
  a response with status 500. A product whose title holds markup.
\<close>

definition canned_fetch :: "jsstring \<Rightarrow> fetch_result" where
  "canned_fetch url =
     Resolved \<lparr>status = 200, statusText = js ''OK'',
               json = Inr \<lparr>products = Some [product_A, product_B], total = 2\<rparr>\<rparr>"

definition empty_fetch :: "jsstring \<Rightarrow> fetch_result" where
  "empty_fetch url =
     Resolved \<lparr>status = 200, statusText = js ''OK'',
               json = Inr \<lparr>products = Some [], total = 0\<rparr>\<rparr>"

definition failing_fetch :: "jsstring \<Rightarrow> fetch_result" where
  "failing_fetch url =
     Resolved \<lparr>status = 500, statusText = js ''Internal Server Error'',
               json = Inl (SyntaxError [])\<rparr>"

definition markup_product :: product where
  \<open>markup_product = product_A\<lparr>title := js ''"><script>alert(1)</script>''\<rparr>\<close>

section \<open>Validation of the search input\<close>

lemma trimEnd_last: "trimEnd s \<noteq> [] \<Longrightarrow> \<not> is_js_whitespace (last (trimEnd s))"
  unfolding trimEnd_def
  by (metis hd_dropWhile last_rev rev_is_Nil_conv rev_rev_ident)

lemma trimEnd_id: "s = [] \<or> \<not> is_js_whitespace (last s) \<Longrightarrow> trimEnd s = s"
  unfolding trimEnd_def
  by (cases s rule: rev_cases) auto

lemma trimStart_idem: "trimStart (trimStart s) = trimStart s"
  unfolding trimStart_def by (simp add: dropWhile_idem)

lemma last_trimStart: "trimStart s \<noteq> [] \<Longrightarrow> last (trimStart s) = last s"
  unfolding trimStart_def
  by (induction s) (auto split: if_splits)

lemma trimStart_Nil: "s = [] \<Longrightarrow> trimStart s = []"
  by (simp add: trimStart_def)

lemma trim_idem: "trim (trim s) = trim s"
proof -
  let ?t = "trimStart (trimEnd s)"
  have "?t = [] \<or> \<not> is_js_whitespace (last ?t)"
  proof (cases "?t = []")
    case True then show ?thesis by simp
  next
    case False
    then have ne: "trimEnd s \<noteq> []" using trimStart_Nil by blast
    from False have "last ?t = last (trimEnd s)" by (rule last_trimStart)
    with trimEnd_last[OF ne] show ?thesis by simp
  qed
  then have "trimEnd ?t = ?t" by (rule trimEnd_id)
  then show ?thesis by (simp add: trim_def trimStart_idem)
qed

lemma currentSearchTerm_showErrorState [simp]:
  "currentSearchTerm (showErrorState s m) = currentSearchTerm s"
  by (simp add: showErrorState_def hideLoading_def)

lemma currentSearchTerm_renderProducts [simp]:
  "currentSearchTerm (fst (renderProducts h s ps)) = currentSearchTerm s"
  by (simp add: renderProducts_def split: prod.splits)

lemma currentSearchTerm_displayResults [simp]:
  "currentSearchTerm (fst (displayResults h s d q)) = currentSearchTerm s"
  by (simp add: displayResults_def showNoResults_def hideLoading_def new_array_def
      showResults_def Let_def split: option.splits list.splits prod.splits)


lemma currentSearchTerm_showLoading [simp]:
  "currentSearchTerm (showLoading (clearError s)) = currentSearchTerm s"
  by (simp add: showLoading_def hideAllSections_def clearError_def)

lemma validate_accepts:
  "2 \<le> length (trim raw) \<Longrightarrow> validateSearchInput s (trim raw) = (s, True)"
  by (auto simp: validateSearchInput_def trim_idem Let_def)



section \<open>Star glyphs\<close>

lemma repeat_nonneg: "0 \<le> n \<Longrightarrow> repeat [c] n = Inr (replicate (nat n) c)"
  by (simp add: repeat_def)

lemma floor_bounds_0_5:
  fixes r :: rat
  assumes "0 \<le> r" "r \<le> 5"
  shows "0 \<le> \<lfloor>r\<rfloor>" "\<lfloor>r\<rfloor> \<le> 5" "1 / 2 \<le> frac r \<Longrightarrow> \<lfloor>r\<rfloor> \<le> 4"
proof -
  show "0 \<le> \<lfloor>r\<rfloor>" using assms by simp
  show "\<lfloor>r\<rfloor> \<le> 5" using assms by (simp add: floor_le_iff)
  assume h: "1 / 2 \<le> frac r"
  have "of_int \<lfloor>r\<rfloor> + frac r = r" by (simp add: frac_def)
  with h assms have "of_int \<lfloor>r\<rfloor> < (5::rat)" by linarith
  then have "\<lfloor>r\<rfloor> < 5" by linarith
  then show "\<lfloor>r\<rfloor> \<le> 4" by simp
qed

lemma generateStars_in_range:
  assumes "0 \<le> r" and "r \<le> 5"
  shows "generateStars r =
           Inr (replicate (nat \<lfloor>r\<rfloor>) full_star
                @ (if 1 / 2 \<le> frac r then [half_star] else [])
                @ replicate (5 - nat \<lfloor>r\<rfloor> - (if 1 / 2 \<le> frac r then 1 else 0)) empty_star)"
    and "nat \<lfloor>r\<rfloor> + (if 1 / 2 \<le> frac r then 1 else 0)
         + (5 - nat \<lfloor>r\<rfloor> - (if 1 / 2 \<le> frac r then 1 else 0)) = (5::nat)"
proof -
  note fb = floor_bounds_0_5 [OF assms]
  have rem: "rem1 r = frac r" using assms by (simp add: rem1_def)
  define z where "z = \<lfloor>r\<rfloor>"
  define b where "b \<longleftrightarrow> 1 / 2 \<le> frac r"
  have z: "0 \<le> z" "z \<le> 5" "b \<Longrightarrow> z \<le> 4"
    using fb by (simp_all add: z_def b_def)
  have e: "0 \<le> 5 - z - (if b then 1 else 0)"
    using z by (cases b) auto
  have n: "nat (5 - z - (if b then 1 else 0)) = 5 - nat z - (if b then 1 else 0)"
    using z by (cases b) auto
  have l: "nat z + (if b then 1 else 0) + (5 - nat z - (if b then 1 else 0)) = 5"
    using z by (cases b) auto
  note e = e [unfolded z_def b_def] and n = n [unfolded z_def b_def]
  show "generateStars r =
           Inr (replicate (nat \<lfloor>r\<rfloor>) full_star
                @ (if 1 / 2 \<le> frac r then [half_star] else [])
                @ replicate (5 - nat \<lfloor>r\<rfloor> - (if 1 / 2 \<le> frac r then 1 else 0)) empty_star)"
    unfolding generateStars_def Let_def rem
    using fb(1) e n by (simp add: repeat_nonneg)
  show "nat \<lfloor>r\<rfloor> + (if 1 / 2 \<le> frac r then 1 else 0)
         + (5 - nat \<lfloor>r\<rfloor> - (if 1 / 2 \<le> frac r then 1 else 0)) = (5::nat)"
    using l [unfolded z_def b_def] .
qed

lemma generateStars_by_floor:
  assumes "0 \<le> r" and "r \<le> 5"
  shows "generateStars r = Inr (replicate (nat \<lfloor>r\<rfloor>) 0x2605 @ replicate (5 - nat \<lfloor>r\<rfloor>) 0x2606)"
proof -
  note g = generateStars_in_range(1) [OF assms] and l = generateStars_in_range(2) [OF assms]
  show ?thesis
  proof (cases "1 / 2 \<le> frac r")
    case True
    with l have "5 - nat \<lfloor>r\<rfloor> = Suc (5 - nat \<lfloor>r\<rfloor> - 1)" by simp
    then have "replicate (5 - nat \<lfloor>r\<rfloor>) (0x2606 :: jschar)
                 = 0x2606 # replicate (5 - nat \<lfloor>r\<rfloor> - 1) 0x2606"
      by (metis replicate_Suc)
    with True show ?thesis
      unfolding g by (simp add: full_star_def half_star_def empty_star_def)
  next
    case False
    then show ?thesis
      unfolding g by (simp add: full_star_def half_star_def empty_star_def)
  qed
qed

text \<open>
  C9. \<open>generateStars\<close> writes the half star with U+2606, the glyph of the empty star,
  so a half star cannot be told from an empty one: rating 3.5 gives three black stars and
  two white stars, the very string of rating 3, and not three full symbols, a half symbol
  and an empty symbol. Ratings 0 and 5 give five empty and five full stars.
\<close>

theorem generateStars_half_star_is_empty_star:
  "generateStars (7 / 2) = Inr [0x2605, 0x2605, 0x2605, 0x2606, 0x2606] \<and>
   generateStars 3 = Inr [0x2605, 0x2605, 0x2605, 0x2606, 0x2606] \<and>
   generateStars (7 / 2) = generateStars 3 \<and>
   half_star = empty_star \<and>
   generateStars 0 = Inr [0x2606, 0x2606, 0x2606, 0x2606, 0x2606] \<and>
   generateStars 5 = Inr [0x2605, 0x2605, 0x2605, 0x2605, 0x2605]"
proof -
  have a: "generateStars (7 / 2) = Inr [0x2605, 0x2605, 0x2605, 0x2606, 0x2606]" by code_simp
  have b: "generateStars 3 = Inr [0x2605, 0x2605, 0x2605, 0x2606, 0x2606]" by code_simp
  have c: "half_star = empty_star" by (simp add: half_star_def empty_star_def)
  have d: "generateStars 0 = Inr [0x2606, 0x2606, 0x2606, 0x2606, 0x2606]" by code_simp
  have e: "generateStars 5 = Inr [0x2605, 0x2605, 0x2605, 0x2605, 0x2605]" by code_simp
  from a b c d e show ?thesis by simp
qed

section \<open>Cards\<close>

lemma generateStars_value:
  assumes "0 \<le> r" and "r \<le> 5"
  shows "\<exists>stars. generateStars r = Inr stars"
  using generateStars_in_range(1) [OF assms] by blast

lemma createProductCard_in_range:
  assumes "0 \<le> rating_or_0 p" and "rating_or_0 p \<le> 5"
  shows "\<exists>c. createProductCard h p = Inr c"
proof -
  from generateStars_value [OF assms] obtain stars where "generateStars (rating_or_0 p) = Inr stars"
    by blast
  then show ?thesis by (simp add: createProductCard_def)
qed

lemma appendCards_all:
  "\<forall>p\<in>set ps. \<exists>c. createProductCard h p = Inr c \<Longrightarrow>
   \<exists>cs. appendCards h ps g = (g @ cs, None) \<and> map (createProductCard h) ps = map Inr cs"
proof (induction ps arbitrary: g)
  case Nil
  then show ?case by simp
next
  case (Cons p ps)
  then obtain c where c: "createProductCard h p = Inr c" by auto
  from Cons obtain cs where cs: "appendCards h ps (g @ [c]) = ((g @ [c]) @ cs, None)"
      "map (createProductCard h) ps = map Inr cs"
    by (metis list.set_intros(2))
  have "appendCards h (p # ps) g = (g @ (c # cs), None)" using c cs(1) by simp
  moreover have "map (createProductCard h) (p # ps) = map Inr (c # cs)" using c cs(2) by simp
  ultimately show ?case by blast
qed

lemma appendCards_in_range:
  assumes "\<forall>p\<in>set ps. 0 \<le> rating_or_0 p \<and> rating_or_0 p \<le> 5"
  shows "map (createProductCard h) ps = map Inr (fst (appendCards h ps []))"
    and "snd (appendCards h ps []) = None"
proof -
  from assms have "\<forall>p\<in>set ps. \<exists>c. createProductCard h p = Inr c"
    using createProductCard_in_range by blast
  from appendCards_all [OF this, of "[]"]
  obtain cs where "appendCards h ps [] = (cs, None)" "map (createProductCard h) ps = map Inr cs"
    by auto
  then show "map (createProductCard h) ps = map Inr (fst (appendCards h ps []))"
    and "snd (appendCards h ps []) = None" by simp_all
qed

lemma title_raw_in_alt:
  \<open>sublist (js ''alt="'' @ title p @ js ''"'') (card_markup h p r stars)\<close>
proof -
  have L2: \<open>js ''"\<newline>                alt="'' = js ''"\<newline>                '' @ js ''alt="''\<close>
    by (simp add: js_def)
  have L3: \<open>js ''"\<newline>                class="product-image"\<newline>                onerror="this.src='https://via.placeholder.com/280x200?text=No+Image'"\<newline>            >\<newline>            <div class="product-info">\<newline>                <h3 class="product-title">''
     = js ''"'' @ js ''\<newline>                class="product-image"\<newline>                onerror="this.src='https://via.placeholder.com/280x200?text=No+Image'"\<newline>            >\<newline>            <div class="product-info">\<newline>                <h3 class="product-title">''\<close>
    by (simp add: js_def)
  have \<open>\<exists>pre post. card_markup h p r stars = pre @ (js ''alt="'' @ title p @ js ''"'') @ post\<close>
    unfolding card_markup_def L2 L3
    by (metis append.assoc)
  then show ?thesis by (simp add: sublist_def)
qed

lemma generateStars_A: "generateStars (21 / 5) = Inr [full_star, full_star, full_star, full_star, empty_star]"
  by code_simp

lemma escapeHtml_markup_title:
  \<open>escapeHtml (js ''"><script>alert(1)</script>'') = js ''"&gt;&lt;script&gt;alert(1)&lt;/script&gt;''\<close>
  by (simp add: escapeHtml_def escape_char_def js_def)

text \<open>
  C5. Not every catalog string is escaped on its way into the card markup:
  \<open>createProductCard\<close> escapes the title inside the heading, and writes the same title
  unescaped into the \<open>alt\<close> attribute of the image. For a product whose title is
  \<open>"><script>alert(1)</script>\<close> the card is built, its markup holds that title as
  it is, closing the attribute and the tag, while \<open>escapeHtml\<close> of the title holds no
  \<open><script>\<close>.
\<close>

theorem createProductCard_title_raw_in_alt:
  \<open>\<exists>c. createProductCard h markup_product = Inr c \<and>
        sublist (js ''alt=""><script>alert(1)</script>"'') (innerHTML c) \<and>
        escapeHtml (title markup_product) = js ''"&gt;&lt;script&gt;alert(1)&lt;/script&gt;'' \<and>
        \<not> sublist (js ''<script>'') (escapeHtml (title markup_product))\<close>
proof -
  have t: \<open>title markup_product = js ''"><script>alert(1)</script>''\<close>
    by (simp add: markup_product_def)
  have r: "rating_or_0 markup_product = 21 / 5"
    by (simp add: markup_product_def rating_or_0_def product_A_def)
  let ?c = "\<lparr>className = js ''product-card'', style_cursor = js ''pointer'',
             innerHTML = card_markup h markup_product (21 / 5)
                           [full_star, full_star, full_star, full_star, empty_star],
             click_opens = markup_product\<rparr>"
  have c: "createProductCard h markup_product = Inr ?c"
    by (simp add: createProductCard_def r generateStars_A)
  have \<open>js ''alt="'' @ title markup_product @ js ''"'' = js ''alt=""><script>alert(1)</script>"''\<close>
    unfolding t by (simp add: js_def)
  with title_raw_in_alt [of markup_product h "21 / 5" "[full_star, full_star, full_star, full_star, empty_star]"]
  have s: \<open>sublist (js ''alt=""><script>alert(1)</script>"'') (innerHTML ?c)\<close> by simp
  have e: \<open>escapeHtml (title markup_product) = js ''"&gt;&lt;script&gt;alert(1)&lt;/script&gt;''\<close>
    unfolding t by (rule escapeHtml_markup_title)
  have n: \<open>\<not> sublist (js ''<script>'') (escapeHtml (title markup_product))\<close>
    unfolding e by (simp add: js_def sublist_code)
  from c s e n show ?thesis by blast
qed

section \<open>Sorting\<close>

lemma is_positive_subtract: "is_positive (subtract a b) \<longleftrightarrow> b < a"
  by (cases a; cases b) (auto simp: is_positive_def less_double_def)

lemma uminus_double_le: "- (a::double) \<le> - b \<longleftrightarrow> b \<le> a"
  by (cases a; cases b) (simp_all add: less_eq_double_def)

lemma insert_by_key: "insert_by (\<lambda>x y. subtract (f x) (f y)) x ys = insort_key f x ys"
  by (induction ys) (auto simp: is_positive_subtract)

lemma insert_by_key_desc:
  "insert_by (\<lambda>x y. subtract (f y) (f x)) x ys = insort_key (\<lambda>x. - f x) x ys"
  by (induction ys) (auto simp: is_positive_subtract uminus_double_le not_less)

lemma insert_by_key_desc_finite:
  "insert_by (\<lambda>x y. Number (Finite (g y - g x))) x ys = insort_key (\<lambda>x. - g x) x ys"
  by (induction ys) (auto simp: is_positive_def less_double_def)

lemma array_sort_key: "array_sort (\<lambda>x y. subtract (f x) (f y)) xs = sort_key f xs"
  by (induction xs) (simp_all add: array_sort_def insert_by_key)

lemma array_sort_key_desc:
  "array_sort (\<lambda>x y. subtract (f y) (f x)) xs = sort_key (\<lambda>x. - f x) xs"
  by (induction xs) (simp_all add: array_sort_def insert_by_key_desc)

lemma array_sort_key_desc_finite:
  "array_sort (\<lambda>x y. Number (Finite (g y - g x))) xs = sort_key (\<lambda>x. - g x) xs"
  by (induction xs) (simp_all add: array_sort_def insert_by_key_desc_finite)

lemma sortProducts_snd: "snd (sortProducts s a t) = a"
  by (simp add: sortProducts_def)

lemma sortProducts_on_eq:
  "sortProducts_on s ps t =
     (if t = js ''price-low'' then sort_key (\<lambda>p. convertToRupees (price p)) ps
      else if t = js ''price-high'' then sort_key (\<lambda>p. - convertToRupees (price p)) ps
      else if t = js ''rating'' then sort_key (\<lambda>p. - rating_or_0 p) ps
      else ps)"
  by (simp add: sortProducts_on_def case_prod_beta sortProducts_def new_array_def
      array_sort_key array_sort_key_desc
      array_sort_key_desc_finite)

lemma sortProducts_fst:
  "fst (sortProducts s a t) = s\<lparr>store := (store s)(a := sortProducts_on s0 (store s a) t)\<rparr>"
  by (simp add: sortProducts_on_eq sortProducts_def array_sort_key array_sort_key_desc
      array_sort_key_desc_finite)

lemma mset_sortProducts_on: "mset (sortProducts_on s ps t) = mset ps"
  by (simp add: sortProducts_on_eq)

lemma sortProducts_on_relevance: "sortProducts_on s ps (js ''relevance'') = ps"
  by (simp add: sortProducts_on_eq js_def)

lemma handleSortChange_fst:
  "fst (handleSortChange h s) =
     (if store s (currentProducts s) = [] then s
      else s\<lparr>store := (store s)
                 (store_limit s := sortProducts_on s0 (store s (currentProducts s)) (sortSelect_value s)),
             store_limit := Suc (store_limit s),
             productGrid :=
               fst (appendCards h
                      (sortProducts_on s0 (store s (currentProducts s)) (sortSelect_value s)) [])\<rparr>)"
proof (cases "store s (currentProducts s) = []")
  case True
  then show ?thesis by (simp add: handleSortChange_def)
next
  case False
  let ?P = "store s (currentProducts s)"
  let ?s1 = "fst (new_array s ?P)"
  let ?a = "snd (new_array s ?P)"
  have fs: "fst (sortProducts ?s1 ?a (sortSelect_value s)) =
        ?s1\<lparr>store := (store ?s1)(?a := sortProducts_on s0 (store ?s1 ?a) (sortSelect_value s))\<rparr>"
    by (rule sortProducts_fst)
  from False show ?thesis
    by (simp add: handleSortChange_def Let_def case_prod_beta renderProducts_def fs
        sortProducts_snd) (simp add: new_array_def)
qed

lemma js_sort_names:
  "js ''price-low'' \<noteq> js ''price-high''" "js ''price-low'' \<noteq> js ''rating''"
  "js ''price-high'' \<noteq> js ''rating''" "js ''relevance'' \<noteq> js ''price-low''"
  "js ''relevance'' \<noteq> js ''price-high''" "js ''relevance'' \<noteq> js ''rating''"
  "js ''rating'' \<noteq> js ''price-low''" "js ''rating'' \<noteq> js ''price-high''"
  "js ''price-high'' \<noteq> js ''price-low''"
  by (simp_all add: js_def)

lemma canned_ui_facts:
  "currentProducts canned_ui = 0" "store_limit canned_ui = 1"
  "store canned_ui 0 = [product_A, product_B]"
  by (simp_all add: canned_ui_def example_ui_def)

lemma canned_ratings:
  "rating_or_0 product_A = 21 / 5" "rating_or_0 product_B = 24 / 5"
  "price product_A = 10" "price product_B = 5"
  by (simp_all add: rating_or_0_def product_A_def product_B_def)

lemma rupees_canned:
  "convertToRupees 10 = Finite 835" "convertToRupees 5 = Finite (835 / 2)"
  by code_simp+

lemma rupees_neighbours:
  "convertToRupees (price product_lo) = Finite (5141316371480577 / 35184372088832)"
  "convertToRupees (price product_hi) = Finite (5141316371480577 / 35184372088832)"
  by code_simp+

lemma bit_length_upper: "n < 2 ^ bit_length n"
proof (induction n rule: bit_length.induct)
  case (1 n)
  show ?case
  proof (cases "n = 0")
    case True
    then show ?thesis by (simp add: bit_length.simps)
  next
    case False
    with 1 have "n div 2 < 2 ^ bit_length (n div 2)" by simp
    then have "n < 2 * 2 ^ bit_length (n div 2)" by linarith
    with False show ?thesis by (subst bit_length.simps) simp
  qed
qed

lemma bit_length_lower: "0 < n \<Longrightarrow> 2 ^ (bit_length n - 1) \<le> n"
proof (induction n rule: bit_length.induct)
  case (1 n)
  then have n: "n \<noteq> 0" by simp
  show ?case
  proof (cases "n div 2 = 0")
    case True
    then have "bit_length (n div 2) = 0" by (simp add: bit_length.simps)
    with n 1(2) show ?thesis by (subst bit_length.simps) simp
  next
    case False
    with 1 n have ih: "2 ^ (bit_length (n div 2) - 1) \<le> n div 2" by simp
    from False have "0 < bit_length (n div 2)" by (subst bit_length.simps) simp
    then have "(2::nat) ^ bit_length (n div 2) = 2 * 2 ^ (bit_length (n div 2) - 1)"
      by (cases "bit_length (n div 2)") simp_all
    with ih have "2 ^ bit_length (n div 2) \<le> n" by linarith
    with n show ?thesis by (subst bit_length.simps) simp
  qed
qed

lemma round_half_even_ge: "of_int k \<le> x \<Longrightarrow> k \<le> round_half_even x"
proof -
  assume "of_int k \<le> x"
  then have "k \<le> \<lfloor>x\<rfloor>" by (simp add: le_floor_iff)
  then show ?thesis by (auto simp: round_half_even_def Let_def)
qed

lemma round_double_large:
  assumes xk: "(2::rat) ^ k \<le> x" and k52: "52 \<le> k" and big: "pow2 1024 \<le> 2 ^ k"
  shows "round_double x = Infinity"
proof -
  have p: "(0::rat) < 2 ^ k" "(1::rat) \<le> 2 ^ k" by simp_all
  from xk p have x0: "0 < x" and x1: "1 \<le> x" by linarith+
  define n where "n = nat \<lfloor>x\<rfloor>"
  define e where "e = bit_length n - 1"
  have nx: "of_nat n \<le> x" using x0 by (simp add: n_def)
  have "(2::rat) ^ k = of_int (2 ^ k)" by simp
  with xk have "(2::int) ^ k \<le> \<lfloor>x\<rfloor>" by (simp only: le_floor_iff)
  then have nk: "2 ^ k \<le> n" unfolding n_def by (simp add: le_nat_iff)
  then have npos: "0 < n" by (metis less_le_trans zero_less_numeral zero_less_power)
  have "(2::nat) ^ k < 2 ^ bit_length n" using nk bit_length_upper [of n] by linarith
  then have "k < bit_length n" by simp
  then have ek: "k \<le> e" and bl: "bit_length n = Suc e" by (simp_all add: e_def)
  have lo: "2 ^ e \<le> n" using bit_length_lower [OF npos] by (simp add: e_def)
  have ax: "\<bar>x\<bar> = x" using x0 by simp
  have il: "ilog2 x = int e" using x1 by (simp add: ilog2_def n_def [symmetric] bl)
  have mx: "max (int e) (- 1022) = int e" by simp
  have ulp: "pow2 (int e - 52) = 2 ^ (e - 52)" using ek k52 by (simp add: pow2_def nat_diff_distrib')
  have "(2::rat) ^ e \<le> of_nat n" using lo by (metis of_nat_le_iff of_nat_numeral of_nat_power)
  with nx have xe: "(2::rat) ^ e \<le> x" by linarith
  have split: "(2::rat) ^ e = 2 ^ 52 * 2 ^ (e - 52)"
    using ek k52 by (simp only: power_add [symmetric]) simp
  have "of_int (2 ^ 52) * (2::rat) ^ (e - 52) \<le> x" using xe split by simp
  then have "of_int (2 ^ 52) \<le> x / 2 ^ (e - 52)" by (simp add: pos_le_divide_eq)
  then have r: "2 ^ 52 \<le> round_half_even (x / 2 ^ (e - 52))" by (rule round_half_even_ge)
  have "pow2 1024 \<le> 2 ^ k" by (rule big)
  also have "\<dots> \<le> (2::rat) ^ e" using ek by simp
  also have "\<dots> = of_int (2 ^ 52) * 2 ^ (e - 52)" using split by simp
  also have "\<dots> \<le> of_int (round_half_even (x / 2 ^ (e - 52))) * 2 ^ (e - 52)"
    using r by (intro mult_right_mono) simp_all
  finally have y: "pow2 1024 \<le> of_int (round_half_even (x / 2 ^ (e - 52))) * 2 ^ (e - 52)" .
  have "round_double x =
      (if pow2 1024 \<le> of_int (round_half_even (x / 2 ^ (e - 52))) * 2 ^ (e - 52)
       then Infinity
       else Finite (of_int (round_half_even (x / 2 ^ (e - 52))) * 2 ^ (e - 52)))"
    unfolding round_double_def Let_def ax il mx ulp using x0 by simp
  with y show ?thesis by (simp only: if_True)
qed

lemma pow2_1024_le: "pow2 1024 \<le> 2 ^ 1028"
proof -
  have "pow2 1024 = 2 ^ 1024" unfolding pow2_def by (simp only: nat_numeral if_True zero_le_numeral)
  moreover have "(2::rat) ^ 1024 \<le> 2 ^ 1028" by (rule power_increasing) simp_all
  ultimately show ?thesis by simp
qed

lemma pow_scale: "(2::rat) ^ (m + j) \<le> 2 ^ m * c" if "2 ^ j \<le> c"
proof -
  have "(2::rat) ^ (m + j) = 2 ^ m * 2 ^ j" by (rule power_add)
  also have "\<dots> \<le> 2 ^ m * c" using that by (intro mult_left_mono) simp_all
  finally show ?thesis .
qed

lemma rupees_overflow:
  "convertToRupees (price product_big) = Infinity"
  "convertToRupees (price product_bigger) = Infinity"
proof -
  have a: "(2::rat) ^ (1022 + 6) \<le> 2 ^ 1022 * (167 / 2)" by (rule pow_scale) simp
  have b: "(2::rat) ^ (1023 + 5) \<le> 2 ^ 1023 * (167 / 2)" by (rule pow_scale) simp
  have e: "(1022::nat) + 6 = 1028" "(1023::nat) + 5 = 1028" by simp_all
  have k: "(52::nat) \<le> 1028" by simp
  show "convertToRupees (price product_big) = Infinity"
    unfolding convertToRupees_def usdToInrRate_def product_big_def
    using round_double_large [OF a [unfolded e] k pow2_1024_le] by (simp del: power_numeral)
  show "convertToRupees (price product_bigger) = Infinity"
    unfolding convertToRupees_def usdToInrRate_def product_bigger_def
    using round_double_large [OF b [unfolded e] k pow2_1024_le] by (simp del: power_numeral)
qed

lemma sortProducts_on_canned:
  "sortProducts_on s [product_A, product_B] (js ''price-low'') = [product_B, product_A]"
  "sortProducts_on s [product_A, product_B] (js ''rating'') = [product_B, product_A]"
  "sortProducts_on s [product_A, product_B] (js ''relevance'') = [product_A, product_B]"
  by (simp_all add: sortProducts_on_def new_array_def sortProducts_def js_sort_names
      array_sort_def canned_ratings rupees_canned is_positive_def less_double_def)

lemma example_prices:
  "price product_lo = 7 / 4 + 1 / 2 ^ 52" "price product_hi = 7 / 4 + 1 / 2 ^ 51"
  "price product_big = 2 ^ 1022" "price product_bigger = 2 ^ 1023"
  by (simp_all add: product_lo_def product_hi_def product_big_def product_bigger_def)

text \<open>
  C4. On the canned response, sorting by ascending price returns B then A, sorting
  by rating returns B then A, and relevance returns A then B. In general the array that
  \<open>sortProducts\<close> returns holds the stable sort of the input by the double that the
  price times 83.5 rounds to (ascending for \<open>price-low\<close>, descending for
  \<open>price-high\<close>), or by descending rating with 0 for an absent rating, and the input
  as it is for \<open>relevance\<close>. The key is the product and not the price: two prices that
  are neighbouring doubles, or two that both overflow, have the same product and keep
  their input order, the greater price first.
\<close>

theorem sortProducts_canned_response:
  "sortProducts_on s [product_A, product_B] (js ''price-low'') = [product_B, product_A] \<and>
   sortProducts_on s [product_A, product_B] (js ''rating'') = [product_B, product_A] \<and>
   sortProducts_on s [product_A, product_B] (js ''relevance'') = [product_A, product_B] \<and>
   sortProducts_on s ps (js ''price-low'') =
     sort_key (\<lambda>p. round_double (price p * (167 / 2))) ps \<and>
   sortProducts_on s ps (js ''price-high'') =
     sort_key (\<lambda>p. - round_double (price p * (167 / 2))) ps \<and>
   sortProducts_on s ps (js ''rating'') =
     sort_key (\<lambda>p. - (case rating p of None \<Rightarrow> 0 | Some r \<Rightarrow> r)) ps \<and>
   sortProducts_on s ps (js ''relevance'') = ps \<and>
   price product_lo < price product_hi \<and>
   sortProducts_on s [product_hi, product_lo] (js ''price-low'') = [product_hi, product_lo] \<and>
   price product_big < price product_bigger \<and>
   sortProducts_on s [product_bigger, product_big] (js ''price-low'') = [product_bigger, product_big]"
proof -
  have k: "sortProducts_on s ps (js ''price-low'') =
       sort_key (\<lambda>p. round_double (price p * (167 / 2))) ps"
     "sortProducts_on s ps (js ''price-high'') =
       sort_key (\<lambda>p. - round_double (price p * (167 / 2))) ps"
     "sortProducts_on s ps (js ''rating'') =
       sort_key (\<lambda>p. - (case rating p of None \<Rightarrow> 0 | Some r \<Rightarrow> r)) ps"
     "sortProducts_on s ps (js ''relevance'') = ps" for ps
    by (simp_all add: sortProducts_on_eq js_sort_names convertToRupees_def usdToInrRate_def
        rating_or_0_def)
  note c = sortProducts_on_canned [of s]
  have p1: "price product_lo < price product_hi"
    by (simp add: example_prices)
  have "(2::rat) ^ 1022 < 2 ^ 1023" by (rule power_strict_increasing) simp_all
  then have p2: "price product_big < price product_bigger"
    by (simp only: example_prices)
  note p = p1 p2
  have n: "sortProducts_on s [product_hi, product_lo] (js ''price-low'') = [product_hi, product_lo]"
    by (simp add: sortProducts_on_def new_array_def sortProducts_def array_sort_def
        rupees_neighbours is_positive_def less_double_def)
  have b: "sortProducts_on s [product_bigger, product_big] (js ''price-low'')
             = [product_bigger, product_big]"
    by (simp add: sortProducts_on_def new_array_def sortProducts_def array_sort_def
        rupees_overflow is_positive_def less_double_def)
  from k c p n b show ?thesis by blast
qed

text \<open>
  C3. As stated the claim fails: \<open>sortProducts\<close> reorders the array it is given. On
  the canned array, sorting by ascending price leaves B then A in the very array that
  held A then B.
\<close>

theorem sortProducts_mutates_its_argument:
  "store canned_ui 0 = [product_A, product_B] \<and>
   store (fst (sortProducts canned_ui 0 (js ''price-low''))) 0 = [product_B, product_A] \<and>
   store (fst (sortProducts canned_ui 0 (js ''price-low''))) 0 \<noteq> store canned_ui 0"
proof -
  have a: "store canned_ui 0 = [product_A, product_B]" by (rule canned_ui_facts)
  have b: "store (fst (sortProducts canned_ui 0 (js ''price-low''))) 0 = [product_B, product_A]"
    by (simp add: sortProducts_def a array_sort_def canned_ratings rupees_canned is_positive_def
        less_double_def)
  have "product_A \<noteq> product_B" by (simp add: product_A_def product_B_def)
  with a b show ?thesis by simp
qed

text \<open>
  C3. amended. \<open>sortProducts\<close> returns the reference it was given. The contents of
  that array afterwards depend only on its contents before and on the sort order, and are
  a permutation of them; for the two price orders and the rating order the array itself
  is sorted in place, for any other order nothing changes; no other array and no other
  field changes. \<open>handleSortChange\<close> calls it on a new copy, so the array of
  \<open>currentProducts\<close> keeps its order.
\<close>

theorem sortProducts_sorts_in_place:
  "snd (sortProducts s a t) = a \<and>
   fst (sortProducts s a t) = s\<lparr>store := (store s)(a := sortProducts_on s0 (store s a) t)\<rparr> \<and>
   mset (store (fst (sortProducts s a t)) a) = mset (store s a) \<and>
   (if t = js ''price-low'' then
      store (fst (sortProducts s a t)) a = sort_key (\<lambda>p. convertToRupees (price p)) (store s a)
    else if t = js ''price-high'' then
      store (fst (sortProducts s a t)) a = sort_key (\<lambda>p. - convertToRupees (price p)) (store s a)
    else if t = js ''rating'' then
      store (fst (sortProducts s a t)) a = sort_key (\<lambda>p. - rating_or_0 p) (store s a)
    else fst (sortProducts s a t) = s) \<and>
   (currentProducts s < store_limit s \<longrightarrow>
      store (fst (handleSortChange h s)) (currentProducts (fst (handleSortChange h s)))
        = store s (currentProducts s))"
proof -
  have 1: "snd (sortProducts s a t) = a" by (rule sortProducts_snd)
  have 2: "fst (sortProducts s a t) = s\<lparr>store := (store s)(a := sortProducts_on s0 (store s a) t)\<rparr>"
    by (rule sortProducts_fst)
  have 3: "mset (store (fst (sortProducts s a t)) a) = mset (store s a)"
    unfolding 2 by (simp add: mset_sortProducts_on)
  have 4: "if t = js ''price-low'' then
      store (fst (sortProducts s a t)) a = sort_key (\<lambda>p. convertToRupees (price p)) (store s a)
    else if t = js ''price-high'' then
      store (fst (sortProducts s a t)) a = sort_key (\<lambda>p. - convertToRupees (price p)) (store s a)
    else if t = js ''rating'' then
      store (fst (sortProducts s a t)) a = sort_key (\<lambda>p. - rating_or_0 p) (store s a)
    else fst (sortProducts s a t) = s"
    by (simp add: sortProducts_def array_sort_key array_sort_key_desc
      array_sort_key_desc_finite)
  have 5: "currentProducts s < store_limit s \<longrightarrow>
      store (fst (handleSortChange h s)) (currentProducts (fst (handleSortChange h s)))
        = store s (currentProducts s)"
    by (subst (1 2) handleSortChange_fst [where ?s0.0 = s]) auto
  from 1 2 3 4 5 show ?thesis by blast
qed

theorem sortProducts_sorts_in_place_witness:
  "currentProducts canned_ui < store_limit canned_ui \<and>
   store (fst (handleSortChange example_host (canned_ui\<lparr>sortSelect_value := js ''price-low''\<rparr>)))
     (currentProducts
        (fst (handleSortChange example_host (canned_ui\<lparr>sortSelect_value := js ''price-low''\<rparr>))))
     = [product_A, product_B]"
proof -
  let ?s = "canned_ui\<lparr>sortSelect_value := js ''price-low''\<rparr>"
  have wf: "currentProducts ?s < store_limit ?s" by (simp add: canned_ui_facts)
  have P: "store ?s (currentProducts ?s) = [product_A, product_B]" by (simp add: canned_ui_facts)
  from sortProducts_sorts_in_place [of ?s 0 "js ''price-low''" ?s example_host] wf
  have "store (fst (handleSortChange example_host ?s))
          (currentProducts (fst (handleSortChange example_host ?s)))
        = store ?s (currentProducts ?s)" by blast
  with P have "store (fst (handleSortChange example_host ?s))
          (currentProducts (fst (handleSortChange example_host ?s))) = [product_A, product_B]"
    by simp
  moreover have "currentProducts canned_ui < store_limit canned_ui" by (simp add: canned_ui_facts)
  ultimately show ?thesis by blast
qed

text \<open>
  Two sort changes in a row, the second with \<open>relevance\<close>: each sorts a new copy of
  the array of \<open>currentProducts\<close>, which keeps its contents, and renders that copy. So
  the grid after the second change is the rendering of that array in its own order.
\<close>

lemma sort_changes_render_current_array:
  assumes "currentProducts s < store_limit s"
  shows "let P = store s (currentProducts s);
             s1 = fst (handleSortChange h (s\<lparr>sortSelect_value := A\<rparr>));
             s2 = fst (handleSortChange h (s1\<lparr>sortSelect_value := js ''relevance''\<rparr>))
         in store s1 (currentProducts s1) = P \<and>
            store s2 (currentProducts s2) = P \<and>
            (P \<noteq> [] \<longrightarrow> productGrid s1 = fst (appendCards h (sortProducts_on s P A) [])) \<and>
            (P \<noteq> [] \<longrightarrow> productGrid s2 = fst (appendCards h P [])) \<and>
            (P \<noteq> [] \<and> (\<forall>p\<in>set P. 0 \<le> rating_or_0 p \<and> rating_or_0 p \<le> 5) \<longrightarrow>
               map (createProductCard h) P = map Inr (productGrid s2))"
proof -
  define P where "P = store s (currentProducts s)"
  define s1 where "s1 = fst (handleSortChange h (s\<lparr>sortSelect_value := A\<rparr>))"
  define s2 where "s2 = fst (handleSortChange h (s1\<lparr>sortSelect_value := js ''relevance''\<rparr>))"
  have ne: "currentProducts s \<noteq> store_limit s" using assms by simp
  have s1: "s1 = (if P = [] then s\<lparr>sortSelect_value := A\<rparr>
              else s\<lparr>sortSelect_value := A,
                     store := (store s)(store_limit s := sortProducts_on s P A),
                     store_limit := Suc (store_limit s),
                     productGrid := fst (appendCards h (sortProducts_on s P A) [])\<rparr>)"
    unfolding s1_def P_def by (subst handleSortChange_fst [where ?s0.0 = s]) simp
  have c1: "currentProducts s1 = currentProducts s" by (simp add: s1)
  have l1: "currentProducts s1 < store_limit s1" using assms by (simp add: s1)
  have p1: "store s1 (currentProducts s1) = P" using ne by (simp add: s1 P_def)
  have g1: "P \<noteq> [] \<Longrightarrow> productGrid s1 = fst (appendCards h (sortProducts_on s P A) [])"
    by (simp add: s1)
  let ?t = "s1\<lparr>sortSelect_value := js ''relevance''\<rparr>"
  have pt: "store ?t (currentProducts ?t) = P" using p1 by simp
  have s2: "s2 = (if P = [] then ?t
              else ?t\<lparr>store := (store ?t)(store_limit ?t := P),
                      store_limit := Suc (store_limit ?t),
                      productGrid := fst (appendCards h P [])\<rparr>)"
    unfolding s2_def
    by (subst handleSortChange_fst [where ?s0.0 = s]) (simp add: p1 sortProducts_on_relevance)
  have p2: "store s2 (currentProducts s2) = P" using l1 p1 by (auto simp: s2)
  have g2: "P \<noteq> [] \<Longrightarrow> productGrid s2 = fst (appendCards h P [])" by (simp add: s2)
  have m2: "P \<noteq> [] \<and> (\<forall>p\<in>set P. 0 \<le> rating_or_0 p \<and> rating_or_0 p \<le> 5) \<Longrightarrow>
        map (createProductCard h) P = map Inr (productGrid s2)"
    using appendCards_in_range(1) [of P h] g2 by simp
  from p1 p2 g1 g2 m2 show ?thesis
    unfolding Let_def P_def [symmetric] s1_def [symmetric] s2_def [symmetric] by blast
qed

section \<open>The outcome of a search\<close>

lemma displayResults_empty:
  "products d = None \<or> products d = Some [] \<Longrightarrow>
   displayResults h s d q = (s\<lparr>loadingSpinner_hidden := True, noResults_hidden := False\<rparr>, None)"
  by (auto simp: displayResults_def showNoResults_def hideLoading_def)

lemma displayResults_nonempty:
  "products d = Some ps \<Longrightarrow> ps \<noteq> [] \<Longrightarrow>
   displayResults h s d q =
     (s\<lparr>loadingSpinner_hidden := True,
        store := (store s)(store_limit s := ps),
        store_limit := Suc (store_limit s),
        currentProducts := store_limit s,
        resultsHeader_hidden := False,
        resultsTitle_textContent := js ''Search Results for '' @ [0x22] @ q @ [0x22],
        resultsCount_textContent :=
          js ''Found '' @ numberToString h (total d) @ js '' product''
          @ (if total d \<noteq> 1 then js ''s'' else []),
        productGrid := fst (appendCards h ps [])\<rparr>,
      snd (appendCards h ps []))"
  by (cases ps)
     (simp_all add: displayResults_def hideLoading_def new_array_def showResults_def
        renderProducts_def Let_def case_prod_beta js_def)

lemma handleSearch_valid:
  assumes "2 \<le> length (trim (searchInput_value s))"
  shows "handleSearch h fetch s =
     (let q = trim (searchInput_value s);
          s2 = showLoading (clearError (s\<lparr>currentSearchTerm := q\<rparr>))
      in case searchProducts fetch q of
           Inl e \<Rightarrow> showErrorState s2 (message h e)
         | Inr data \<Rightarrow>
             (case displayResults h s2 data q of
                (s3, None) \<Rightarrow> s3
              | (s3, Some e) \<Rightarrow> showErrorState s3 (message h e)))"
  by (simp add: handleSearch_def validate_accepts [OF assms] Let_def)

lemma loading_state:
  "showLoading (clearError (s\<lparr>currentSearchTerm := q\<rparr>)) =
     s\<lparr>currentSearchTerm := q, errorMessage_show := False, searchInput_error := False,
       loadingSpinner_hidden := False, resultsHeader_hidden := True, productGrid := [],
       noResults_hidden := True, errorContainer_hidden := True,
       sortSelect_value := js ''relevance''\<rparr>"
  by (simp add: showLoading_def clearError_def hideAllSections_def)

lemma encode_ab: "encodeURIComponent (js ''ab'') = Inr (js ''ab'')"
  by (simp add: js_def uri_unescaped_def)

lemma trim_ab: "trim (js ''ab'') = js ''ab''"
  by (simp add: trim_def trimStart_def trimEnd_def js_def is_js_whitespace_def)

lemma length_ab: "2 \<le> length (trim (js ''ab''))"
  unfolding trim_ab by (simp add: js_def)

text \<open>
  C7. For a parsed body whose product list is empty or missing, \<open>displayResults\<close>
  hides the spinner and shows the no-results section, changes nothing else and throws
  nothing. A valid search answered by such a body ends with the no-results section
  shown, the error section hidden, the results header hidden and the grid empty.
\<close>

theorem empty_result_shows_noResults:
  assumes "products data = None \<or> products data = Some []"
  shows "displayResults h s data q =
           (s\<lparr>loadingSpinner_hidden := True, noResults_hidden := False\<rparr>, None) \<and>
         (2 \<le> length (trim (searchInput_value s)) \<and>
          searchProducts fetch (trim (searchInput_value s)) = Inr data \<longrightarrow>
            (let s' = handleSearch h fetch s
             in \<not> noResults_hidden s' \<and> errorContainer_hidden s' \<and> productGrid s' = [] \<and>
                resultsHeader_hidden s' \<and> loadingSpinner_hidden s'))"
proof (intro conjI impI)
  show "displayResults h s data q =
           (s\<lparr>loadingSpinner_hidden := True, noResults_hidden := False\<rparr>, None)"
    using assms by (rule displayResults_empty)
next
  assume a: "2 \<le> length (trim (searchInput_value s)) \<and>
          searchProducts fetch (trim (searchInput_value s)) = Inr data"
  then have v: "2 \<le> length (trim (searchInput_value s))"
    and f: "searchProducts fetch (trim (searchInput_value s)) = Inr data" by simp_all
  show "let s' = handleSearch h fetch s
        in \<not> noResults_hidden s' \<and> errorContainer_hidden s' \<and> productGrid s' = [] \<and>
           resultsHeader_hidden s' \<and> loadingSpinner_hidden s'"
    by (simp add: handleSearch_valid [OF v] Let_def f displayResults_empty [OF assms] loading_state)
qed

theorem empty_result_shows_noResults_witness:
  "(products \<lparr>products = Some [], total = 0\<rparr> = None \<or>
    products \<lparr>products = Some [], total = 0\<rparr> = Some []) \<and>
   2 \<le> length (trim (searchInput_value (example_ui\<lparr>searchInput_value := js ''ab''\<rparr>))) \<and>
   searchProducts empty_fetch (trim (searchInput_value (example_ui\<lparr>searchInput_value := js ''ab''\<rparr>)))
     = Inr \<lparr>products = Some [], total = 0\<rparr> \<and>
   \<not> noResults_hidden (handleSearch example_host empty_fetch (example_ui\<lparr>searchInput_value := js ''ab''\<rparr>)) \<and>
   errorContainer_hidden (handleSearch example_host empty_fetch (example_ui\<lparr>searchInput_value := js ''ab''\<rparr>)) \<and>
   productGrid (handleSearch example_host empty_fetch (example_ui\<lparr>searchInput_value := js ''ab''\<rparr>)) = []"
proof -
  let ?s = "example_ui\<lparr>searchInput_value := js ''ab''\<rparr>"
  let ?d = "\<lparr>products = Some [], total = 0\<rparr>"
  have e: "products ?d = None \<or> products ?d = Some []" by simp
  have v: "2 \<le> length (trim (searchInput_value ?s))" using length_ab by simp
  have f: "searchProducts empty_fetch (trim (searchInput_value ?s)) = Inr ?d"
    by (simp add: trim_ab searchProducts_def searchProducts_url_def encode_ab empty_fetch_def ok_def)
  from empty_result_shows_noResults [OF e, of example_host ?s "[]" empty_fetch] v f
  have "\<not> noResults_hidden (handleSearch example_host empty_fetch ?s) \<and>
        errorContainer_hidden (handleSearch example_host empty_fetch ?s) \<and>
        productGrid (handleSearch example_host empty_fetch ?s) = []"
    unfolding Let_def by blast
  with e v f show ?thesis by blast
qed

lemma searchProducts_not_ok:
  assumes "encodeURIComponent q = Inr e"
    and "fetch (apiBaseUrl @ js ''?q='' @ e @ js ''&limit=50'') = Resolved r"
    and "status r < 200 \<or> 299 < status r"
  shows "searchProducts fetch q =
           Inl (Error (js ''Failed to fetch products: '' @ nat_to_string (status r)
                       @ js '' '' @ statusText r))"
  using assms by (auto simp: searchProducts_def searchProducts_url_def ok_def)

lemma nat_to_string_500: "nat_to_string 500 = js ''500''"
  by (simp add: nat_to_string.simps js_def digit_char_def)

text \<open>
  C8. When the response to the request has a status outside 200 to 299,
  \<open>searchProducts\<close> throws an error whose message holds the status in decimal, and
  returns no data. \<open>handleSearch\<close> then shows the error section with that message, the
  other sections hidden; for status 500 the text shown contains 500.
\<close>

theorem http_error_shows_error_state:
  assumes "encodeURIComponent q = Inr e"
    and "fetch (apiBaseUrl @ js ''?q='' @ e @ js ''&limit=50'') = Resolved r"
    and "status r < 200 \<or> 299 < status r"
  shows "searchProducts fetch q =
           Inl (Error (js ''Failed to fetch products: '' @ nat_to_string (status r)
                       @ js '' '' @ statusText r)) \<and>
         (2 \<le> length (trim (searchInput_value s)) \<and> trim (searchInput_value s) = q \<longrightarrow>
            (let s' = handleSearch h fetch s
             in \<not> errorContainer_hidden s' \<and>
                errorText_textContent s' =
                  js ''Failed to fetch products: '' @ nat_to_string (status r) @ js '' '' @ statusText r \<and>
                sublist (nat_to_string (status r)) (errorText_textContent s') \<and>
                (status r = 500 \<longrightarrow> sublist (js ''500'') (errorText_textContent s')) \<and>
                noResults_hidden s' \<and> resultsHeader_hidden s' \<and> productGrid s' = [] \<and>
                loadingSpinner_hidden s'))"
proof (intro conjI impI)
  show sp: "searchProducts fetch q =
           Inl (Error (js ''Failed to fetch products: '' @ nat_to_string (status r)
                       @ js '' '' @ statusText r))"
    using assms by (rule searchProducts_not_ok)
  assume a: "2 \<le> length (trim (searchInput_value s)) \<and> trim (searchInput_value s) = q"
  then have v: "2 \<le> length (trim (searchInput_value s))" and q: "trim (searchInput_value s) = q"
    by blast+
  have hs: "handleSearch h fetch s =
      showErrorState (showLoading (clearError (s\<lparr>currentSearchTerm := q\<rparr>)))
        (js ''Failed to fetch products: '' @ nat_to_string (status r) @ js '' '' @ statusText r)"
    by (simp add: handleSearch_valid [OF v] Let_def q sp)
  have sub: "sublist (nat_to_string (status r))
      (js ''Failed to fetch products: '' @ nat_to_string (status r) @ js '' '' @ statusText r)"
    by (rule sublist_appendI)
  show "let s' = handleSearch h fetch s
        in \<not> errorContainer_hidden s' \<and>
           errorText_textContent s' =
             js ''Failed to fetch products: '' @ nat_to_string (status r) @ js '' '' @ statusText r \<and>
           sublist (nat_to_string (status r)) (errorText_textContent s') \<and>
           (status r = 500 \<longrightarrow> sublist (js ''500'') (errorText_textContent s')) \<and>
           noResults_hidden s' \<and> resultsHeader_hidden s' \<and> productGrid s' = [] \<and>
           loadingSpinner_hidden s'"
    unfolding hs Let_def loading_state
    using sub by (auto simp: showErrorState_def hideLoading_def nat_to_string_500)
qed

theorem http_error_shows_error_state_witness:
  "encodeURIComponent (js ''ab'') = Inr (js ''ab'') \<and>
   failing_fetch (apiBaseUrl @ js ''?q='' @ js ''ab'' @ js ''&limit=50'') =
     Resolved \<lparr>status = 500, statusText = js ''Internal Server Error'', json = Inl (SyntaxError [])\<rparr> \<and>
   searchProducts failing_fetch (js ''ab'') =
     Inl (Error (js ''Failed to fetch products: 500 Internal Server Error'')) \<and>
   2 \<le> length (trim (searchInput_value (example_ui\<lparr>searchInput_value := js ''ab''\<rparr>))) \<and>
   \<not> errorContainer_hidden
       (handleSearch example_host failing_fetch (example_ui\<lparr>searchInput_value := js ''ab''\<rparr>)) \<and>
   errorText_textContent
       (handleSearch example_host failing_fetch (example_ui\<lparr>searchInput_value := js ''ab''\<rparr>))
     = js ''Failed to fetch products: 500 Internal Server Error'' \<and>
   sublist (js ''500'')
     (errorText_textContent
        (handleSearch example_host failing_fetch (example_ui\<lparr>searchInput_value := js ''ab''\<rparr>)))"
proof -
  let ?s = "example_ui\<lparr>searchInput_value := js ''ab''\<rparr>"
  let ?r = "\<lparr>status = 500, statusText = js ''Internal Server Error'', json = Inl (SyntaxError [])\<rparr>"
  have f: "failing_fetch (apiBaseUrl @ js ''?q='' @ js ''ab'' @ js ''&limit=50'') = Resolved ?r"
    by (simp add: failing_fetch_def)
  have b: "status ?r < 200 \<or> 299 < status ?r" by simp
  have v: "2 \<le> length (trim (searchInput_value ?s))" using length_ab by simp
  have q: "trim (searchInput_value ?s) = js ''ab''" by (simp add: trim_ab)
  have m: "js ''Failed to fetch products: '' @ nat_to_string (status ?r) @ js '' '' @ statusText ?r
           = js ''Failed to fetch products: 500 Internal Server Error''"
    by (simp add: nat_to_string_500) (simp add: js_def)
  note t = http_error_shows_error_state
      [where fetch = failing_fetch and r = ?r and s = ?s and h = example_host,
       OF encode_ab f b, unfolded Let_def m]
  have st: "status ?r = 500" by simp
  from t have 1: "searchProducts failing_fetch (js ''ab'') =
     Inl (Error (js ''Failed to fetch products: 500 Internal Server Error''))" by blast
  from t v q have 2: "\<not> errorContainer_hidden (handleSearch example_host failing_fetch ?s)"
    and 3: "errorText_textContent (handleSearch example_host failing_fetch ?s)
              = js ''Failed to fetch products: 500 Internal Server Error''"
    by blast+
  from t v q st have 4: "sublist (js ''500'')
     (errorText_textContent (handleSearch example_host failing_fetch ?s))" by blast
  from encode_ab f 1 v 2 3 4 show ?thesis by blast
qed

lemma sortSelect_displayResults:
  "sortSelect_value (fst (displayResults h s d q)) = sortSelect_value s"
  by (simp add: displayResults_def showNoResults_def hideLoading_def new_array_def
      showResults_def renderProducts_def Let_def case_prod_beta
      split: option.splits list.splits)

lemma sortSelect_finish:
  "sortSelect_value
     (case displayResults h s d q of
        (s3, None) \<Rightarrow> s3
      | (s3, Some e) \<Rightarrow> showErrorState s3 (message h e)) = sortSelect_value s"
proof -
  obtain s3 eo where r: "displayResults h s d q = (s3, eo)" by (cases "displayResults h s d q")
  have "sortSelect_value (fst (displayResults h s d q)) = sortSelect_value s"
    by (rule sortSelect_displayResults)
  with r show ?thesis by (cases eo) (simp_all add: showErrorState_def hideLoading_def)
qed

lemma sortSelect_handleSearch:
  assumes "2 \<le> length (trim (searchInput_value s))"
  shows "sortSelect_value (handleSearch h fetch s) = js ''relevance''"
  unfolding handleSearch_valid [OF assms] Let_def
  by (cases "searchProducts fetch (trim (searchInput_value s))")
     (simp_all add: sortSelect_finish, simp_all add: loading_state showErrorState_def hideLoading_def)

lemma handleSearch_results:
  assumes v: "2 \<le> length (trim (searchInput_value s))"
    and f: "searchProducts fetch (trim (searchInput_value s)) = Inr data"
    and p: "products data = Some ps" and ne: "ps \<noteq> []"
  shows "store (handleSearch h fetch s) (currentProducts (handleSearch h fetch s)) = ps"
    and "productGrid (handleSearch h fetch s) = fst (appendCards h ps [])"
    and "\<not> resultsHeader_hidden (handleSearch h fetch s)"
    and "snd (appendCards h ps []) = None \<Longrightarrow> errorContainer_hidden (handleSearch h fetch s)"
    and "snd (appendCards h ps []) = None \<Longrightarrow> noResults_hidden (handleSearch h fetch s)"
proof -
  let ?s2 = "showLoading (clearError (s\<lparr>currentSearchTerm := trim (searchInput_value s)\<rparr>))"
  note d = displayResults_nonempty [OF p ne, of h ?s2 "trim (searchInput_value s)"]
  have hs: "handleSearch h fetch s =
      (case snd (appendCards h ps []) of
         None \<Rightarrow> fst (displayResults h ?s2 data (trim (searchInput_value s)))
       | Some e \<Rightarrow> showErrorState (fst (displayResults h ?s2 data (trim (searchInput_value s))))
                     (message h e))"
    unfolding handleSearch_valid [OF v] Let_def f
    by (simp add: d split: option.splits)
  show "store (handleSearch h fetch s) (currentProducts (handleSearch h fetch s)) = ps"
    unfolding hs d by (simp add: showErrorState_def hideLoading_def split: option.splits)
  show "productGrid (handleSearch h fetch s) = fst (appendCards h ps [])"
    unfolding hs d by (simp add: showErrorState_def hideLoading_def split: option.splits)
  show "\<not> resultsHeader_hidden (handleSearch h fetch s)"
    unfolding hs d by (simp add: showErrorState_def hideLoading_def split: option.splits)
  show "snd (appendCards h ps []) = None \<Longrightarrow> errorContainer_hidden (handleSearch h fetch s)"
    unfolding hs d by (simp add: loading_state)
  show "snd (appendCards h ps []) = None \<Longrightarrow> noResults_hidden (handleSearch h fetch s)"
    unfolding hs d by (simp add: loading_state)
qed

text \<open>
  C10. A search with a valid input leaves the sort control on \<open>relevance\<close>,
  whatever it was before. When the response carries products, they are stored in
  \<open>currentProducts\<close> and rendered in the order of the server, and \<open>displayResults\<close>
  renders them in that order from any state of the page, whatever the sort control says.
\<close>

theorem search_resets_sort_to_relevance:
  assumes "2 \<le> length (trim (searchInput_value s))"
  shows "sortSelect_value (handleSearch h fetch s) = js ''relevance'' \<and>
         (searchProducts fetch (trim (searchInput_value s)) = Inr data \<and>
          products data = Some ps \<and> ps \<noteq> [] \<longrightarrow>
            (let s' = handleSearch h fetch s
             in store s' (currentProducts s') = ps \<and>
                productGrid s' = fst (appendCards h ps []) \<and>
                \<not> resultsHeader_hidden s' \<and>
                ((\<forall>p\<in>set ps. 0 \<le> rating_or_0 p \<and> rating_or_0 p \<le> 5) \<longrightarrow>
                   map (createProductCard h) ps = map Inr (productGrid s') \<and>
                   errorContainer_hidden s' \<and> noResults_hidden s'))) \<and>
         (products data = Some ps \<and> ps \<noteq> [] \<longrightarrow>
            productGrid (fst (displayResults h t data q)) = fst (appendCards h ps []))"
proof (intro conjI impI)
  show "sortSelect_value (handleSearch h fetch s) = js ''relevance''"
    using assms by (rule sortSelect_handleSearch)
next
  assume a: "searchProducts fetch (trim (searchInput_value s)) = Inr data \<and>
          products data = Some ps \<and> ps \<noteq> []"
  then have f: "searchProducts fetch (trim (searchInput_value s)) = Inr data"
    and p: "products data = Some ps" and ne: "ps \<noteq> []" by blast+
  note r = handleSearch_results [OF assms f p ne, of h]
  have "(\<forall>p\<in>set ps. 0 \<le> rating_or_0 p \<and> rating_or_0 p \<le> 5) \<longrightarrow>
          map (createProductCard h) ps = map Inr (productGrid (handleSearch h fetch s)) \<and>
          errorContainer_hidden (handleSearch h fetch s) \<and> noResults_hidden (handleSearch h fetch s)"
    using r(2,4,5) appendCards_in_range [of ps h] by simp
  with r(1,2,3) show "let s' = handleSearch h fetch s
        in store s' (currentProducts s') = ps \<and>
           productGrid s' = fst (appendCards h ps []) \<and>
           \<not> resultsHeader_hidden s' \<and>
           ((\<forall>p\<in>set ps. 0 \<le> rating_or_0 p \<and> rating_or_0 p \<le> 5) \<longrightarrow>
              map (createProductCard h) ps = map Inr (productGrid s') \<and>
              errorContainer_hidden s' \<and> noResults_hidden s')"
    unfolding Let_def by blast
next
  assume "products data = Some ps \<and> ps \<noteq> []"
  then have p: "products data = Some ps" and ne: "ps \<noteq> []" by blast+
  show "productGrid (fst (displayResults h t data q)) = fst (appendCards h ps [])"
    by (simp add: displayResults_nonempty [OF p ne])
qed

theorem search_resets_sort_to_relevance_witness:
  "2 \<le> length (trim (searchInput_value
         (example_ui\<lparr>searchInput_value := js ''ab'', sortSelect_value := js ''price-low''\<rparr>))) \<and>
   sortSelect_value
     (handleSearch example_host canned_fetch
        (example_ui\<lparr>searchInput_value := js ''ab'', sortSelect_value := js ''price-low''\<rparr>))
     = js ''relevance'' \<and>
   searchProducts canned_fetch (trim (searchInput_value
         (example_ui\<lparr>searchInput_value := js ''ab'', sortSelect_value := js ''price-low''\<rparr>)))
     = Inr \<lparr>products = Some [product_A, product_B], total = 2\<rparr> \<and>
   map (createProductCard example_host) [product_A, product_B] =
     map Inr (productGrid
       (handleSearch example_host canned_fetch
          (example_ui\<lparr>searchInput_value := js ''ab'', sortSelect_value := js ''price-low''\<rparr>)))"
proof -
  let ?s = "example_ui\<lparr>searchInput_value := js ''ab'', sortSelect_value := js ''price-low''\<rparr>"
  let ?d = "\<lparr>products = Some [product_A, product_B], total = 2\<rparr>"
  have v: "2 \<le> length (trim (searchInput_value ?s))" using length_ab by simp
  have f: "searchProducts canned_fetch (trim (searchInput_value ?s)) = Inr ?d"
    by (simp add: trim_ab searchProducts_def searchProducts_url_def encode_ab canned_fetch_def ok_def)
  have p: "products ?d = Some [product_A, product_B]" "[product_A, product_B] \<noteq> []" by simp_all
  have r: "\<forall>p\<in>set [product_A, product_B]. 0 \<le> rating_or_0 p \<and> rating_or_0 p \<le> 5"
    by (simp add: canned_ratings)
  note t = search_resets_sort_to_relevance
      [OF v, of example_host canned_fetch ?d "[product_A, product_B]", unfolded Let_def]
  from t have 1: "sortSelect_value (handleSearch example_host canned_fetch ?s) = js ''relevance''"
    by blast
  from t f p r have 2: "map (createProductCard example_host) [product_A, product_B] =
     map Inr (productGrid (handleSearch example_host canned_fetch ?s))" by blast
  from v 1 f 2 show ?thesis by blast
qed

subsection \<open>The current array is always allocated\<close>

text \<open>
  The reference in \<open>currentProducts\<close> lies below \<open>store_limit\<close> on the page as
  constructed, and both handlers keep it so.
\<close>

lemma allocated_example: "currentProducts example_ui < store_limit example_ui"
  by (simp add: example_ui_def)

lemma allocated_handleSortChange:
  "currentProducts s < store_limit s \<Longrightarrow>
   currentProducts (fst (handleSortChange h s)) < store_limit (fst (handleSortChange h s))"
  by (subst (1 2) handleSortChange_fst [where ?s0.0 = s]) auto

lemma allocated_displayResults:
  "currentProducts s < store_limit s \<Longrightarrow>
   currentProducts (fst (displayResults h s d q)) < store_limit (fst (displayResults h s d q))"
  by (simp add: displayResults_def showNoResults_def hideLoading_def new_array_def
      showResults_def renderProducts_def Let_def case_prod_beta
      split: option.splits list.splits)

lemma allocated_handleSearch:
  assumes "currentProducts s < store_limit s"
  shows "currentProducts (handleSearch h fetch s) < store_limit (handleSearch h fetch s)"
proof -
  let ?q = "trim (searchInput_value s)"
  let ?s2 = "showLoading (clearError (s\<lparr>currentSearchTerm := ?q\<rparr>))"
  have a2: "currentProducts ?s2 < store_limit ?s2" using assms by (simp add: loading_state)
  have fin: "currentProducts
       (case displayResults h ?s2 d ?q of
          (s3, None) \<Rightarrow> s3
        | (s3, Some e) \<Rightarrow> showErrorState s3 (message h e))
     < store_limit
       (case displayResults h ?s2 d ?q of
          (s3, None) \<Rightarrow> s3
        | (s3, Some e) \<Rightarrow> showErrorState s3 (message h e))" for d
  proof -
    obtain s3 eo where r: "displayResults h ?s2 d ?q = (s3, eo)"
      by (cases "displayResults h ?s2 d ?q")
    from allocated_displayResults [OF a2, of h d ?q] r
    have "currentProducts s3 < store_limit s3" by simp
    with r show ?thesis by (cases eo) (simp_all add: showErrorState_def hideLoading_def)
  qed
  show ?thesis
  proof (cases "2 \<le> length ?q")
    case True
    show ?thesis
    proof (cases "searchProducts fetch ?q")
      case (Inl e)
      then show ?thesis
        unfolding handleSearch_valid [OF True] Let_def
        using a2 by (simp add: showErrorState_def hideLoading_def)
    next
      case (Inr d)
      then show ?thesis
        unfolding handleSearch_valid [OF True] Let_def
        using fin [of d] by simp
    qed
  next
    case False
    then show ?thesis using assms
      by (auto simp: handleSearch_def validateSearchInput_def trim_idem Let_def showError_def)
  qed
qed

subsection \<open>A sort change after a search without results\<close>

lemma encode_zz: "encodeURIComponent (js ''zz'') = Inr (js ''zz'')"
  by (simp add: js_def uri_unescaped_def)

lemma trim_zz: "trim (js ''zz'') = js ''zz''"
  by (simp add: trim_def trimStart_def trimEnd_def js_def is_js_whitespace_def)

lemma handleSearch_empty:
  assumes v: "2 \<le> length (trim (searchInput_value s))"
    and f: "searchProducts fetch (trim (searchInput_value s)) = Inr d"
    and e: "products d = None \<or> products d = Some []"
  shows "handleSearch h fetch s =
     s\<lparr>currentSearchTerm := trim (searchInput_value s), errorMessage_show := False,
       searchInput_error := False, loadingSpinner_hidden := True, resultsHeader_hidden := True,
       productGrid := [], noResults_hidden := False, errorContainer_hidden := True,
       sortSelect_value := js ''relevance''\<rparr>"
  by (simp add: handleSearch_valid [OF v] Let_def f displayResults_empty [OF e] loading_state)

text \<open>
  C2. A sort change does not always start from the last fetched list. When a search
  returns no products, \<open>displayResults\<close> returns before \<open>currentProducts\<close> is
  replaced, so the array of the search before stays current. After a search that
  fetched A and B and a second one that fetched nothing, the no-results section is shown
  and the grid is empty; a sort change by rating then renders B and A, and a sort change
  back to relevance renders A and B, the no-results section still shown.
\<close>

theorem sort_change_after_empty_search_renders_earlier_products:
  "let s1 = handleSearch example_host canned_fetch (example_ui\<lparr>searchInput_value := js ''ab''\<rparr>);
       s2 = handleSearch example_host empty_fetch (s1\<lparr>searchInput_value := js ''zz''\<rparr>);
       s3 = fst (handleSortChange example_host (s2\<lparr>sortSelect_value := js ''rating''\<rparr>));
       s4 = fst (handleSortChange example_host (s3\<lparr>sortSelect_value := js ''relevance''\<rparr>))
   in searchProducts canned_fetch (js ''ab'') =
        Inr \<lparr>products = Some [product_A, product_B], total = 2\<rparr> \<and>
      searchProducts empty_fetch (js ''zz'') = Inr \<lparr>products = Some [], total = 0\<rparr> \<and>
      productGrid s2 = [] \<and> \<not> noResults_hidden s2 \<and>
      store s2 (currentProducts s2) = [product_A, product_B] \<and>
      map Inr (productGrid s3) = map (createProductCard example_host) [product_B, product_A] \<and>
      map Inr (productGrid s4) = map (createProductCard example_host) [product_A, product_B] \<and>
      \<not> noResults_hidden s4"
proof -
  let ?h = example_host
  define s0 where "s0 = example_ui\<lparr>searchInput_value := js ''ab''\<rparr>"
  define s1 where "s1 = handleSearch ?h canned_fetch s0"
  define t1 where "t1 = s1\<lparr>searchInput_value := js ''zz''\<rparr>"
  define s2 where "s2 = handleSearch ?h empty_fetch t1"
  define t2 where "t2 = s2\<lparr>sortSelect_value := js ''rating''\<rparr>"
  define s3 where "s3 = fst (handleSortChange ?h t2)"
  define t3 where "t3 = s3\<lparr>sortSelect_value := js ''relevance''\<rparr>"
  define s4 where "s4 = fst (handleSortChange ?h t3)"
  let ?P = "[product_A, product_B]"
  let ?d = "\<lparr>products = Some ?P, total = 2\<rparr>"
  let ?e = "\<lparr>products = Some [], total = 0\<rparr>"
  have f1: "searchProducts canned_fetch (js ''ab'') = Inr ?d"
    by (simp add: searchProducts_def searchProducts_url_def encode_ab canned_fetch_def ok_def)
  have f2: "searchProducts empty_fetch (js ''zz'') = Inr ?e"
    by (simp add: searchProducts_def searchProducts_url_def encode_zz empty_fetch_def ok_def)
  have v0: "2 \<le> length (trim (searchInput_value s0))" using length_ab by (simp add: s0_def)
  have q0: "trim (searchInput_value s0) = js ''ab''" by (simp add: s0_def trim_ab)
  have a0: "currentProducts s0 < store_limit s0" using allocated_example by (simp add: s0_def)
  have p1: "store s1 (currentProducts s1) = ?P"
    unfolding s1_def
    using handleSearch_results(1) [of s0 canned_fetch ?d ?P ?h] v0 q0 f1 by simp
  have a1: "currentProducts s1 < store_limit s1"
    unfolding s1_def using a0 by (rule allocated_handleSearch)
  have q1: "trim (searchInput_value t1) = js ''zz''" by (simp add: t1_def trim_zz)
  have v1: "2 \<le> length (trim (searchInput_value t1))" unfolding q1 by (simp add: js_def)
  have s2: "s2 = t1\<lparr>currentSearchTerm := js ''zz'', errorMessage_show := False,
       searchInput_error := False, loadingSpinner_hidden := True, resultsHeader_hidden := True,
       productGrid := [], noResults_hidden := False, errorContainer_hidden := True,
       sortSelect_value := js ''relevance''\<rparr>"
    unfolding s2_def
    by (subst handleSearch_empty [OF v1, of empty_fetch ?e]) (simp_all add: q1 f2)
  have g2: "productGrid s2 = []" and n2: "\<not> noResults_hidden s2" by (simp_all add: s2)
  have p2: "store s2 (currentProducts s2) = ?P" using p1 by (simp add: s2 t1_def)
  have a2: "currentProducts s2 < store_limit s2" using a1 by (simp add: s2 t1_def)
  have s3: "s3 = t2\<lparr>store := (store t2)(store_limit t2 := [product_B, product_A]),
                   store_limit := Suc (store_limit t2),
                   productGrid := fst (appendCards ?h [product_B, product_A] [])\<rparr>"
    unfolding s3_def
    by (subst handleSortChange_fst [where ?s0.0 = t2])
       (simp add: t2_def p2 sortProducts_on_canned)
  have p3: "store s3 (currentProducts s3) = ?P" using p2 a2 by (auto simp: s3 t2_def)
  have s4: "s4 = t3\<lparr>store := (store t3)(store_limit t3 := ?P),
                   store_limit := Suc (store_limit t3),
                   productGrid := fst (appendCards ?h ?P [])\<rparr>"
    unfolding s4_def
    by (subst handleSortChange_fst [where ?s0.0 = t3])
       (simp add: t3_def p3 sortProducts_on_canned)
  have r: "\<forall>p\<in>set ?P. 0 \<le> rating_or_0 p \<and> rating_or_0 p \<le> 5"
          "\<forall>p\<in>set [product_B, product_A]. 0 \<le> rating_or_0 p \<and> rating_or_0 p \<le> 5"
    by (simp_all add: canned_ratings)
  have g3: "map Inr (productGrid s3) = map (createProductCard ?h) [product_B, product_A]"
    using appendCards_in_range(1) [OF r(2), of ?h] by (simp add: s3)
  have g4: "map Inr (productGrid s4) = map (createProductCard ?h) ?P"
    using appendCards_in_range(1) [OF r(1), of ?h] by (simp add: s4)
  have n4: "\<not> noResults_hidden s4" using n2 by (simp add: s4 t3_def s3 t2_def)
  from f1 f2 g2 n2 p2 g3 g4 n4 show ?thesis
    unfolding Let_def s0_def [symmetric] s1_def [symmetric] t1_def [symmetric] s2_def [symmetric]
      t2_def [symmetric] s3_def [symmetric] t3_def [symmetric] s4_def [symmetric]
    by blast
qed

section \<open>The request URL\<close>

lemma encodeURIComponent_error: "encodeURIComponent q = Inl err \<Longrightarrow> err = URIError"
  by (induction q arbitrary: err rule: encodeURIComponent.induct)
     (auto split: if_splits sum.splits list.splits)

lemma encodeURIComponent_no_surrogates:
  "\<forall>c\<in>set q. \<not> is_high_surrogate c \<and> \<not> is_low_surrogate c \<Longrightarrow>
   \<exists>e. encodeURIComponent q = Inr e"
  by (induction q) (auto split: sum.splits)

lemma encode_red_shoes: "encodeURIComponent (js ''red shoes'') = Inr (js ''red%20shoes'')"
  by (simp add: js_def uri_unescaped_def is_low_surrogate_def is_high_surrogate_def
      percent_encode_def utf8_octets_def percent_octet_def hex_digit_def)

lemma encode_lone_surrogate: "encodeURIComponent [0xD800, 0x61] = Inl URIError"
  by (simp add: js_def uri_unescaped_def is_low_surrogate_def is_high_surrogate_def)

lemma unescaped_not_surrogate:
  assumes "uri_unescaped c"
  shows "\<not> is_low_surrogate c" and "\<not> is_high_surrogate c"
proof -
  have "c \<le> 0x7E"
    using assms unfolding uri_unescaped_def js_def by (auto simp: word_le_def)
  then show "\<not> is_low_surrogate c" and "\<not> is_high_surrogate c"
    unfolding is_low_surrogate_def is_high_surrogate_def by (auto simp: word_le_def)
qed

lemma succeeds_Cons:
  "(\<exists>e. (case x of Inl e \<Rightarrow> Inl e | Inr r \<Rightarrow> Inr (f r)) = Inr e) \<longleftrightarrow> (\<exists>r. x = Inr r)"
  by (cases x) simp_all

lemma encodeURIComponent_succeeds_iff:
  "(\<exists>e. encodeURIComponent q = Inr e) \<longleftrightarrow> isWellFormed q"
proof (induction q rule: length_induct)
  case (1 q)
  show ?case
  proof (cases q)
    case Nil
    then show ?thesis by simp
  next
    case (Cons c cs)
    have ih: "(\<exists>e. encodeURIComponent cs = Inr e) \<longleftrightarrow> isWellFormed cs"
      using 1 Cons by simp
    show ?thesis
    proof (cases "uri_unescaped c")
      case True
      with unescaped_not_surrogate [OF True] ih show ?thesis
        unfolding Cons by (simp add: succeeds_Cons)
    next
      case u: False
      show ?thesis
      proof (cases "is_low_surrogate c")
        case True
        with u show ?thesis unfolding Cons by simp
      next
        case l: False
        show ?thesis
        proof (cases "is_high_surrogate c")
          case False
          with u l ih show ?thesis unfolding Cons by (simp add: succeeds_Cons)
        next
          case h: True
          show ?thesis
          proof (cases cs)
            case Nil
            with u l h show ?thesis unfolding Cons by simp
          next
            case (Cons d ds)
            have ih2: "(\<exists>e. encodeURIComponent ds = Inr e) \<longleftrightarrow> isWellFormed ds"
              using 1 \<open>q = c # cs\<close> Cons by simp
            from u l h ih2 show ?thesis
              unfolding \<open>q = c # cs\<close> Cons by (simp add: succeeds_Cons)
          qed
        qed
      qed
    qed
  qed
qed

lemma encodeURIComponent_throws_iff:
  "encodeURIComponent q = Inl URIError \<longleftrightarrow> \<not> isWellFormed q"
proof -
  have "\<not> isWellFormed q \<longleftrightarrow> (\<exists>err. encodeURIComponent q = Inl err)"
    unfolding encodeURIComponent_succeeds_iff [symmetric]
    by (cases "encodeURIComponent q") simp_all
  also have "\<dots> \<longleftrightarrow> encodeURIComponent q = Inl URIError"
    using encodeURIComponent_error by blast
  finally show ?thesis by simp
qed

text \<open>
  C6. As stated the claim fails twice. The \<open>searchProducts\<close> of \<open>script.js\<close>
  builds the URL without \<open>&limit=50\<close>; and for a valid query holding an unpaired
  surrogate no URL is built at all, \<open>encodeURIComponent\<close> throwing a URIError.
\<close>

theorem searchProducts_url_counterexample:
  "length (trim (js ''ab'')) = 2 \<and>
   script_searchProducts_url (js ''ab'') = Inr (js ''https://dummyjson.com/products/search?q=ab'') \<and>
   script_searchProducts_url (js ''ab'') \<noteq>
     Inr (js ''https://dummyjson.com/products/search?q=ab&limit=50'') \<and>
   length (trim [0xD800, 0x61]) = 2 \<and>
   searchProducts_url [0xD800, 0x61] = Inl URIError"
proof -
  have 1: "length (trim (js ''ab'')) = 2" unfolding trim_ab by (simp add: js_def)
  have 2: "script_searchProducts_url (js ''ab'') = Inr (js ''https://dummyjson.com/products/search?q=ab'')"
    by (simp add: script_searchProducts_url_def encode_ab apiBaseUrl_def) (simp add: js_def)
  have 3: "script_searchProducts_url (js ''ab'') \<noteq>
     Inr (js ''https://dummyjson.com/products/search?q=ab&limit=50'')"
    unfolding 2 by (simp add: js_def)
  have 4: "length (trim [0xD800, 0x61]) = 2"
    by (simp add: trim_def trimStart_def trimEnd_def is_js_whitespace_def)
  have 5: "searchProducts_url [0xD800, 0x61] = Inl URIError"
    unfolding searchProducts_url_def encode_lone_surrogate by simp
  from 1 2 3 4 5 show ?thesis by blast
qed

text \<open>
  C6. amended. \<open>encodeURIComponent\<close> accepts exactly the well-formed queries, those
  without an unpaired surrogate, among them every query without surrogates. For these the
  \<open>searchProducts\<close> of the larger source file requests exactly the endpoint followed
  by \<open>?q=\<close>, the encoded query and \<open>&limit=50\<close>, and the one of \<open>script.js\<close>
  the same without \<open>&limit=50\<close>. For every query with an unpaired surrogate
  \<open>encodeURIComponent\<close> throws a URIError, \<open>searchProducts\<close> throws it, and no URL
  is built.
\<close>

theorem searchProducts_url_shape:
  "(encodeURIComponent q = Inr e \<longrightarrow>
      searchProducts_url q = Inr (apiBaseUrl @ js ''?q='' @ e @ js ''&limit=50'') \<and>
      searchProducts fetch q =
        searchProducts (\<lambda>_. fetch (apiBaseUrl @ js ''?q='' @ e @ js ''&limit=50'')) q \<and>
      script_searchProducts_url q = Inr (apiBaseUrl @ js ''?q='' @ e)) \<and>
   (encodeURIComponent q = Inl err \<longrightarrow>
      err = URIError \<and> searchProducts_url q = Inl err \<and> searchProducts fetch q = Inl err) \<and>
   ((\<forall>c\<in>set q. \<not> is_high_surrogate c \<and> \<not> is_low_surrogate c) \<longrightarrow>
      (\<exists>e'. encodeURIComponent q = Inr e')) \<and>
   (isWellFormed q \<longrightarrow> (\<exists>e'. encodeURIComponent q = Inr e')) \<and>
   (\<not> isWellFormed q \<longrightarrow>
      encodeURIComponent q = Inl URIError \<and> searchProducts_url q = Inl URIError \<and>
      script_searchProducts_url q = Inl URIError \<and> searchProducts fetch q = Inl URIError)"
proof (intro conjI impI)
  assume "\<forall>c\<in>set q. \<not> is_high_surrogate c \<and> \<not> is_low_surrogate c"
  then show "\<exists>e'. encodeURIComponent q = Inr e'" by (rule encodeURIComponent_no_surrogates)
next
  assume "encodeURIComponent q = Inl err"
  then show "err = URIError" by (rule encodeURIComponent_error)
next
  assume "isWellFormed q"
  then show "\<exists>e'. encodeURIComponent q = Inr e'"
    by (simp add: encodeURIComponent_succeeds_iff)
next
  assume n: "\<not> isWellFormed q"
  then show t: "encodeURIComponent q = Inl URIError"
    by (simp add: encodeURIComponent_throws_iff)
  show "searchProducts_url q = Inl URIError"
    by (simp add: searchProducts_url_def t)
  show "script_searchProducts_url q = Inl URIError"
    by (simp add: script_searchProducts_url_def t)
  show "searchProducts fetch q = Inl URIError"
    by (simp add: searchProducts_def searchProducts_url_def t)
qed (simp_all add: searchProducts_url_def searchProducts_def script_searchProducts_url_def)

theorem searchProducts_url_shape_witness:
  "encodeURIComponent (js ''red shoes'') = Inr (js ''red%20shoes'') \<and>
   isWellFormed (js ''red shoes'') \<and>
   searchProducts_url (js ''red shoes'') =
     Inr (js ''https://dummyjson.com/products/search?q=red%20shoes&limit=50'') \<and>
   script_searchProducts_url (js ''red shoes'') =
     Inr (js ''https://dummyjson.com/products/search?q=red%20shoes'') \<and>
   \<not> isWellFormed [0xD800, 0x61] \<and>
   encodeURIComponent [0xD800, 0x61] = Inl URIError \<and>
   searchProducts_url [0xD800, 0x61] = Inl URIError \<and>
   \<not> isWellFormed [0x61, 0xDC00] \<and>
   encodeURIComponent [0x61, 0xDC00] = Inl URIError \<and>
   searchProducts_url [0x61, 0xDC00] = Inl URIError"
proof -
  note t = searchProducts_url_shape [of "js ''red shoes''" "js ''red%20shoes''" canned_fetch URIError]
  note u = searchProducts_url_shape [of "[0xD800, 0x61]" "[]" canned_fetch URIError]
  note v = searchProducts_url_shape [of "[0x61, 0xDC00]" "[]" canned_fetch URIError]
  have a: "apiBaseUrl @ js ''?q='' @ js ''red%20shoes'' @ js ''&limit=50''
           = js ''https://dummyjson.com/products/search?q=red%20shoes&limit=50''"
    by (simp add: apiBaseUrl_def js_def)
  have b: "apiBaseUrl @ js ''?q='' @ js ''red%20shoes''
           = js ''https://dummyjson.com/products/search?q=red%20shoes''"
    by (simp add: apiBaseUrl_def js_def)
  have w: "isWellFormed (js ''red shoes'')"
    by (simp add: js_def is_low_surrogate_def is_high_surrogate_def)
  have nu: "\<not> isWellFormed [0xD800, 0x61]"
    by (simp add: is_low_surrogate_def is_high_surrogate_def)
  have nv: "\<not> isWellFormed [0x61, 0xDC00]"
    by (simp add: is_low_surrogate_def is_high_surrogate_def)
  from t encode_red_shoes have 1: "searchProducts_url (js ''red shoes'') =
     Inr (js ''https://dummyjson.com/products/search?q=red%20shoes&limit=50'')"
    unfolding a by blast
  from t encode_red_shoes have 2: "script_searchProducts_url (js ''red shoes'') =
     Inr (js ''https://dummyjson.com/products/search?q=red%20shoes'')"
    unfolding b by blast
  from u nu have 3: "encodeURIComponent [0xD800, 0x61] = Inl URIError"
    "searchProducts_url [0xD800, 0x61] = Inl URIError" by blast+
  from v nv have 4: "encodeURIComponent [0x61, 0xDC00] = Inl URIError"
    "searchProducts_url [0x61, 0xDC00] = Inl URIError" by blast+
  from encode_red_shoes w 1 2 nu 3 nv 4 show ?thesis by blast
qed

end
